theory Spec2Isabelle
  imports Main "HOL-Library.AList" "HOL-Library.Char_ord" "HOL-Library.List_Lexorder"
begin

section \<open>Thread store of the e-mail agent (thread\_manager.py)\<close>

text \<open>
  The development follows \<^verbatim>\<open>src/thread_manager.py\<close>: the three storage providers
  (\<^verbatim>\<open>JSONStorageProvider\<close>, \<^verbatim>\<open>SQLiteStorageProvider\<close>, \<^verbatim>\<open>MockStorageProvider\<close>),
  the provider factory and the module-level public functions.

  Strings are \<^typ>\<open>string\<close>; the order on them is the lexicographic one, which is how both
  Python and SQLite (binary collation) compare the ISO-8601 timestamps.
\<close>

subsection \<open>Records\<close>

text \<open>
  One message is a Python dict. A field is \<open>None\<close> when the key is absent from the dict,
  so that every \<^verbatim>\<open>email.get(key, default)\<close> of the source is a \<open>case\<close> on the field
  (for \<^verbatim>\<open>uid\<close>, \<open>None\<close> also stands for the value \<^verbatim>\<open>None\<close>: the source reads
  it with \<^verbatim>\<open>email.get('uid')\<close> only).
\<close>

record email =
  uid :: "int option"
  sender :: "string option"
  subject :: "string option"
  body :: "string option"
  timestamp :: "string option"
  is_bot_reply :: "bool option"

text \<open>\<^verbatim>\<open>d.get(key, default)\<close>\<close>

definition dict_get :: "'a option \<Rightarrow> 'a \<Rightarrow> 'a" where
  "dict_get v d = (case v of None \<Rightarrow> d | Some x \<Rightarrow> x)"

text \<open>
  \<^verbatim>\<open>Dict[str, List[Dict]]\<close>: Python dicts keep insertion order, so the mapping is an
  association list; \<open>AList.update\<close> assigns in place or appends a new key at the end,
  as \<^verbatim>\<open>threads[k] = v\<close> does, and \<open>AList.delete\<close> is \<^verbatim>\<open>del threads[k]\<close>.
\<close>

type_synonym threads = "(string \<times> email list) list"

text \<open>\<^verbatim>\<open>threads.get(thread_id, [])\<close>\<close>

definition threads_get :: "threads \<Rightarrow> string \<Rightarrow> email list" where
  "threads_get t tid = (case map_of t tid of None \<Rightarrow> [] | Some h \<Rightarrow> h)"

text \<open>
  \<^verbatim>\<open>xs[-n:]\<close> for a Python int \<open>n\<close>: the last \<open>n\<close> elements when \<open>n > 0\<close>; the whole
  list when \<open>n = 0\<close> (\<^verbatim>\<open>xs[-0:]\<close> is \<^verbatim>\<open>xs[0:]\<close>); the list without its first \<open>-n\<close>
  elements when \<open>n < 0\<close>.
\<close>

definition py_last_slice :: "int \<Rightarrow> 'a list \<Rightarrow> 'a list" where
  "py_last_slice n xs =
     (if 0 < n then drop (length xs - nat n) xs
      else if n = 0 then xs
      else drop (nat (- n)) xs)"

subsection \<open>The clock and the cut-off date\<close>

text \<open>
  A naive \<^verbatim>\<open>datetime\<close>, as \<^verbatim>\<open>datetime.now()\<close> returns it.
\<close>

record datetime =
  dt_year :: int
  dt_month :: int
  dt_day :: int
  dt_hour :: int
  dt_minute :: int
  dt_second :: int
  dt_microsecond :: int

text \<open>
  The date arithmetic of the standard library (\<^verbatim>\<open>datetime\<close>, proleptic Gregorian
  calendar): a date is counted in days from 0001-01-01, which is day 1.
\<close>

definition is_leap :: "int \<Rightarrow> bool" where
  "is_leap year = (year mod 4 = 0 \<and> (year mod 100 \<noteq> 0 \<or> year mod 400 = 0))"

definition days_before_year :: "int \<Rightarrow> int" where
  "days_before_year year =
     (let y = year - 1 in y * 365 + y div 4 - y div 100 + y div 400)"

definition DAYS_IN_MONTH :: "int list" where
  "DAYS_IN_MONTH = [- 1, 31, 28, 31, 30, 31, 30, 31, 31, 30, 31, 30, 31]"

definition DAYS_BEFORE_MONTH :: "int list" where
  "DAYS_BEFORE_MONTH = [- 1, 0, 31, 59, 90, 120, 151, 181, 212, 243, 273, 304, 334]"

definition days_before_month :: "int \<Rightarrow> int \<Rightarrow> int" where
  "days_before_month year month =
     DAYS_BEFORE_MONTH ! nat month + (if 2 < month \<and> is_leap year then 1 else 0)"

definition ymd2ord :: "int \<Rightarrow> int \<Rightarrow> int \<Rightarrow> int" where
  "ymd2ord year month day = days_before_year year + days_before_month year month + day"

text \<open>
  The inverse: year, month and day of day number \<open>n\<close>, by the numbers of whole 400-year,
  100-year, 4-year and 1-year cycles before it.
\<close>

definition ord2ymd :: "int \<Rightarrow> int \<times> int \<times> int" where
  "ord2ymd n =
     (let n0 = n - 1;
          n400 = n0 div 146097; r400 = n0 mod 146097;
          n100 = r400 div 36524; r100 = r400 mod 36524;
          n4 = r100 div 1461; r4 = r100 mod 1461;
          n1 = r4 div 365; r1 = r4 mod 365;
          year = n400 * 400 + 1 + n100 * 100 + n4 * 4 + n1
      in if n1 = 4 \<or> n100 = 4 then (year - 1, 12, 31)
         else
           let leapyear = (n1 = 3 \<and> (n4 \<noteq> 24 \<or> n100 = 3));
               month = (r1 + 50) div 32;
               preceding = DAYS_BEFORE_MONTH ! nat month + (if 2 < month \<and> leapyear then 1 else 0)
           in if r1 < preceding
              then (year, month - 1,
                    r1 - (preceding - (DAYS_IN_MONTH ! nat (month - 1)
                                         + (if month - 1 = 2 \<and> leapyear then 1 else 0))) + 1)
              else (year, month, r1 - preceding + 1))"

text \<open>
  \<^verbatim>\<open>now - timedelta(days=days_old)\<close>. \<open>None\<close> is \<^verbatim>\<open>OverflowError\<close>: the
  \<^verbatim>\<open>timedelta\<close> constructor raises it for more than 999999999 days either way, the
  subtraction raises it when the day number of the result is outside years 1 to 9999
  (day numbers 1 to 3652059). The time of day is unchanged.
\<close>

definition minus_days :: "datetime \<Rightarrow> int \<Rightarrow> datetime option" where
  "minus_days now days_old =
     (if 999999999 < \<bar>days_old\<bar> then None
      else
        let n = ymd2ord (dt_year now) (dt_month now) (dt_day now) - days_old
        in if 0 < n \<and> n \<le> 3652059
           then (case ord2ymd n of
                   (y, m, d) \<Rightarrow> Some (now\<lparr>dt_year := y, dt_month := m, dt_day := d\<rparr>))
           else None)"

text \<open>Python's \<^verbatim>\<open>str\<close> of a natural number, and \<^verbatim>\<open>"%0wd" % n\<close>.\<close>

function str_nat :: "nat \<Rightarrow> string" where
  "str_nat n =
     (if n < 10 then [''0123456789'' ! n]
      else str_nat (n div 10) @ [''0123456789'' ! (n mod 10)])"
  by pat_completeness auto
termination
  by (relation "measure id") auto

declare str_nat.simps [simp del]

definition zero_padded :: "nat \<Rightarrow> int \<Rightarrow> string" where
  "zero_padded w n =
     replicate (w - length (str_nat (nat n))) (CHR ''0'') @ str_nat (nat n)"

text \<open>
  \<^verbatim>\<open>datetime.isoformat()\<close>: \<^verbatim>\<open>YYYY-MM-DDTHH:MM:SS\<close>, followed by the six digits
  of the microseconds when they are not zero.
\<close>

definition isoformat :: "datetime \<Rightarrow> string" where
  "isoformat d =
     zero_padded 4 (dt_year d) @ ''-'' @ zero_padded 2 (dt_month d) @ ''-'' @
     zero_padded 2 (dt_day d) @ ''T'' @ zero_padded 2 (dt_hour d) @ '':'' @
     zero_padded 2 (dt_minute d) @ '':'' @ zero_padded 2 (dt_second d) @
     (if dt_microsecond d \<noteq> 0 then ''.'' @ zero_padded 6 (dt_microsecond d) else [])"

text \<open>
  \<^verbatim>\<open>cutoff_iso = (datetime.now() - timedelta(days=days_old)).isoformat()\<close>, \<open>now\<close>
  being the reading of the clock.
\<close>

definition cutoff_iso_of :: "datetime \<Rightarrow> int \<Rightarrow> string option" where
  "cutoff_iso_of now days_old = map_option isoformat (minus_days now days_old)"

subsection \<open>The file system seen by the JSON provider\<close>

text \<open>
  The content of a file, up to the JSON codec of the standard library:
  \<^item> \<open>Document t\<close>: text that \<^verbatim>\<open>json.load\<close> parses to the mapping \<open>t\<close>, and that
    \<^verbatim>\<open>json.dump(t, ...)\<close> writes;
  \<^item> \<open>Malformed s\<close>: text \<open>s\<close> on which \<^verbatim>\<open>json.load\<close> raises \<^verbatim>\<open>JSONDecodeError\<close>;
  \<^item> \<open>Unreadable s\<close>: data on which loading raises any other exception (bytes that are
    not UTF-8, or JSON that is not an object of lists).
\<close>

datatype content = Document threads | Malformed string | Unreadable string

type_synonym files = "string \<rightharpoonup> content"

text \<open>
  Which operating-system calls raise during one provider call. \<open>dump_fails = Some s\<close>:
  \<^verbatim>\<open>json.dump\<close> raises after the text \<open>s\<close> has reached the temporary file.
\<close>

record io_plan =
  open_write_fails :: bool
  dump_fails :: "string option"
  replace_fails :: bool
  getsize_fails :: bool
  remove_fails :: bool
  read_fails :: bool
  rename_fails :: bool

definition io_ok :: io_plan where
  "io_ok = \<lparr>open_write_fails = False, dump_fails = None, replace_fails = False,
            getsize_fails = False, remove_fails = False, read_fails = False,
            rename_fails = False\<rparr>"

subsection \<open>JSONStorageProvider\<close>

text \<open>\<^verbatim>\<open>f"{self.file_path}.tmp"\<close>\<close>

definition temp_file :: "string \<Rightarrow> string" where
  "temp_file p = p @ ''.tmp''"

text \<open>
  The \<^verbatim>\<open>except\<close> branch of \<^verbatim>\<open>save_threads\<close>: the temporary file is removed if it
  exists; a failing \<^verbatim>\<open>os.remove\<close> is logged and leaves it.
\<close>

definition save_cleanup :: "io_plan \<Rightarrow> string \<Rightarrow> files \<Rightarrow> files" where
  "save_cleanup pl p fs =
     (if fs (temp_file p) \<noteq> None \<and> \<not> remove_fails pl then fs(temp_file p := None) else fs)"

text \<open>
  \<^verbatim>\<open>JSONStorageProvider.save_threads\<close>: open the temporary file for writing, dump,
  \<^verbatim>\<open>os.replace\<close> it over the target, read the new size for the log. Any exception
  goes to the \<^verbatim>\<open>except\<close> branch, which cleans up and returns \<^verbatim>\<open>False\<close>.
\<close>

definition json_save_threads :: "io_plan \<Rightarrow> string \<Rightarrow> threads \<Rightarrow> files \<Rightarrow> bool \<times> files" where
  "json_save_threads pl p t fs =
     (if open_write_fails pl then (False, save_cleanup pl p fs)
      else case dump_fails pl of
        Some partial \<Rightarrow> (False, save_cleanup pl p (fs(temp_file p \<mapsto> Malformed partial)))
      | None \<Rightarrow>
          let fs1 = fs(temp_file p \<mapsto> Document t) in
          if replace_fails pl then (False, save_cleanup pl p fs1)
          else
            let fs2 = fs1(p := fs1 (temp_file p), temp_file p := None) in
            if getsize_fails pl then (False, save_cleanup pl p fs2)
            else (True, fs2))"

text \<open>A failure of the write proper: opening the temporary file, dumping, or replacing.\<close>

definition write_fails :: "io_plan \<Rightarrow> bool" where
  "write_fails pl = (open_write_fails pl \<or> dump_fails pl \<noteq> None \<or> replace_fails pl)"

text \<open>
  The file-system states the call goes through, one after each operating-system call, in
  order: what a reader of the files can observe while \<^verbatim>\<open>save_threads\<close> runs. Opening
  the temporary file with mode \<^verbatim>\<open>'w'\<close> creates it empty (or truncates it).
\<close>

definition json_save_trace :: "io_plan \<Rightarrow> string \<Rightarrow> threads \<Rightarrow> files \<Rightarrow> files list" where
  "json_save_trace pl p t fs =
     (if open_write_fails pl then [fs, save_cleanup pl p fs]
      else
        let fs0 = fs(temp_file p \<mapsto> Malformed []) in
        case dump_fails pl of
          Some partial \<Rightarrow>
            [fs, fs0, fs(temp_file p \<mapsto> Malformed partial),
             save_cleanup pl p (fs(temp_file p \<mapsto> Malformed partial))]
        | None \<Rightarrow>
            let fs1 = fs(temp_file p \<mapsto> Document t) in
            if replace_fails pl then [fs, fs0, fs1, save_cleanup pl p fs1]
            else
              let fs2 = fs1(p := fs1 (temp_file p), temp_file p := None) in
              if getsize_fails pl then [fs, fs0, fs1, fs2, save_cleanup pl p fs2]
              else [fs, fs0, fs1, fs2])"

text \<open>Python's \<^verbatim>\<open>str\<close> of an integer, for \<^verbatim>\<open>int(time.time())\<close> in the backup name.\<close>

definition str_int :: "int \<Rightarrow> string" where
  "str_int i = (if i < 0 then ''-'' @ str_nat (nat (- i)) else str_nat (nat i))"

text \<open>\<^verbatim>\<open>f"{self.file_path}.backup_{int(time.time())}"\<close>; \<open>now\<close> is \<^verbatim>\<open>int(time.time())\<close>.\<close>

definition backup_name :: "string \<Rightarrow> int \<Rightarrow> string" where
  "backup_name p now = p @ ''.backup_'' @ str_int now"

text \<open>
  \<^verbatim>\<open>JSONStorageProvider.load_threads\<close>. A missing file gives the empty dict. A
  \<^verbatim>\<open>JSONDecodeError\<close> renames the file to the backup name (a failing rename is logged)
  and gives the empty dict. Any other exception gives the empty dict and leaves the
  files alone.
\<close>

definition json_load_threads :: "io_plan \<Rightarrow> int \<Rightarrow> string \<Rightarrow> files \<Rightarrow> threads \<times> files" where
  "json_load_threads pl now p fs =
     (case fs p of
        None \<Rightarrow> ([], fs)
      | Some c \<Rightarrow>
          if getsize_fails pl \<or> read_fails pl then ([], fs)
          else (case c of
              Document t \<Rightarrow> (t, fs)
            | Malformed s \<Rightarrow>
                if rename_fails pl then ([], fs)
                else ([], fs(p := None, backup_name p now \<mapsto> Malformed s))
            | Unreadable s \<Rightarrow> ([], fs)))"

text \<open>\<^verbatim>\<open>JSONStorageProvider.get_thread_history\<close>\<close>

definition json_get_thread_history ::
  "io_plan \<Rightarrow> int \<Rightarrow> string \<Rightarrow> string \<Rightarrow> files \<Rightarrow> email list \<times> files" where
  "json_get_thread_history pl now p thread_id fs =
     (if thread_id = [] then ([], fs)
      else
        let (t, fs1) = json_load_threads pl now p fs in
        (threads_get t thread_id, fs1))"

text \<open>
  \<^verbatim>\<open>JSONStorageProvider.add_email_to_thread\<close>; \<open>H\<close> is \<^verbatim>\<open>MAX_THREAD_HISTORY\<close>.
  The thread is created empty when missing, the record appended, and the list cut to
  \<^verbatim>\<open>threads[thread_id][-MAX_THREAD_HISTORY:]\<close> when longer than \<open>H\<close>.
\<close>

definition json_add_email_to_thread ::
  "int \<Rightarrow> io_plan \<Rightarrow> int \<Rightarrow> string \<Rightarrow> string \<Rightarrow> email \<Rightarrow> files \<Rightarrow> bool \<times> files" where
  "json_add_email_to_thread H pl now p thread_id email_data fs =
     (if thread_id = [] then (False, fs)
      else
        let (t, fs1) = json_load_threads pl now p fs;
            t1 = (if thread_id \<notin> fst ` set t then AList.update thread_id [] t else t);
            t2 = AList.update thread_id (threads_get t1 thread_id @ [email_data]) t1;
            new_count = length (threads_get t2 thread_id);
            t3 = (if H < int new_count
                  then AList.update thread_id (py_last_slice H (threads_get t2 thread_id)) t2
                  else t2)
        in json_save_threads pl p t3 fs1)"

text \<open>\<^verbatim>\<open>email.get('timestamp', '')\<close>\<close>

definition email_timestamp :: "email \<Rightarrow> string" where
  "email_timestamp e = dict_get (timestamp e) []"

text \<open>
  \<^verbatim>\<open>max(x :: xs, key=f)\<close>: Python keeps the first of the maximal elements, so the
  candidate is replaced only by a strictly greater one.
\<close>

fun py_max_key :: "('a \<Rightarrow> 'k::linorder) \<Rightarrow> 'a \<Rightarrow> 'a list \<Rightarrow> 'a" where
  "py_max_key f x [] = x"
| "py_max_key f x (y # ys) = py_max_key f (if f x < f y then y else x) ys"

text \<open>
  The test of the clean-up loop of the JSON provider on one thread: an empty history, or
  the newest timestamp below \<^verbatim>\<open>cutoff_iso\<close>.
\<close>

definition json_marked_for_removal :: "string \<Rightarrow> email list \<Rightarrow> bool" where
  "json_marked_for_removal cutoff_iso history =
     (case history of
        [] \<Rightarrow> True
      | x # xs \<Rightarrow> email_timestamp (py_max_key email_timestamp x xs) < cutoff_iso)"

text \<open>
  \<^verbatim>\<open>JSONStorageProvider.cleanup_old_threads(days_old)\<close>; \<open>clock\<close> is what
  \<^verbatim>\<open>datetime.now()\<close> returns during the call and \<open>now\<close> is \<^verbatim>\<open>int(time.time())\<close>
  (for the load). The dict is loaded first and an empty dict returns 0; then the cut-off
  is computed, inside the \<^verbatim>\<open>try\<close>: an \<^verbatim>\<open>OverflowError\<close> there goes to the
  \<^verbatim>\<open>except\<close> branch, which returns 0.
\<close>

definition json_cleanup_old_threads ::
  "io_plan \<Rightarrow> int \<Rightarrow> string \<Rightarrow> datetime \<Rightarrow> int \<Rightarrow> files \<Rightarrow> nat \<times> files" where
  "json_cleanup_old_threads pl now p clock days_old fs =
     (let (t, fs1) = json_load_threads pl now p fs in
      if t = [] then (0, fs1)
      else
        case cutoff_iso_of clock days_old of
          None \<Rightarrow> (0, fs1)
        | Some cutoff_iso \<Rightarrow>
            let threads_to_remove =
                  map fst (filter (\<lambda>(thread_id, history).
                                     json_marked_for_removal cutoff_iso history) t);
                t' = fold AList.delete threads_to_remove t;
                removed_count = length threads_to_remove
            in if 0 < removed_count
               then (case json_save_threads pl p t' fs1 of
                       (True, fs2) \<Rightarrow> (removed_count, fs2)
                     | (False, fs2) \<Rightarrow> (0, fs2))
               else (removed_count, fs1))"

text \<open>
  The value under \<^verbatim>\<open>avg_emails_per_thread\<close>, by the expression that computes it:
  \<^item> \<open>Zero\<close>: the integer \<^verbatim>\<open>0\<close>;
  \<^item> \<open>Ratio e t\<close>: the float \<^verbatim>\<open>e / t\<close>;
  \<^item> \<open>Rounded e t\<close>: the float \<^verbatim>\<open>round(e / t, 1)\<close>.

  Equal terms are equal values. Different terms may be the same float (\<open>Ratio 2 1\<close> and
  \<open>Rounded 2 1\<close> are both \<^verbatim>\<open>2.0\<close>), so nothing is concluded from two terms being
  different except on concrete numbers: \<open>Ratio 4 3\<close> is \<^verbatim>\<open>1.3333333333333333\<close> and
  \<open>Rounded 4 3\<close> is \<^verbatim>\<open>1.3\<close>.
\<close>

datatype average = Zero | Ratio nat nat | Rounded nat nat

text \<open>\<^verbatim>\<open>total_emails / total_threads if total_threads > 0 else 0\<close>\<close>

definition average_of :: "nat \<Rightarrow> nat \<Rightarrow> average" where
  "average_of emails threads = (if 0 < threads then Ratio emails threads else Zero)"

text \<open>\<^verbatim>\<open>round(avg, 1)\<close>; the rounding of \<^verbatim>\<open>0\<close> is \<^verbatim>\<open>0\<close>.\<close>

definition round1 :: "average \<Rightarrow> average" where
  "round1 a = (case a of Ratio e t \<Rightarrow> Rounded e t | _ \<Rightarrow> a)"

text \<open>
  The logical fields of the dict \<^verbatim>\<open>get_storage_stats\<close> returns. The fields that
  identify the backend (type, path, size, operation count) are left out.
\<close>

record stats =
  total_threads :: nat
  total_emails :: nat
  threads_with_history :: nat
  avg_emails_per_thread :: average
  threads_at_limit :: nat
  bot_replies :: nat
  user_emails :: nat

text \<open>
  The fields as the JSON and the mock provider compute them from the dict, with the
  same expressions: \<^verbatim>\<open>len(threads)\<close>, \<^verbatim>\<open>sum(len(history) ...)\<close>,
  \<^verbatim>\<open>len([t for t in threads.values() if len(t) > 1])\<close>,
  \<^verbatim>\<open>len([t ... if len(t) >= MAX_THREAD_HISTORY])\<close>, and the records counted by
  \<^verbatim>\<open>email.get("is_bot_reply", False)\<close>. The average is the unrounded one here.
\<close>

definition threads_stats :: "int \<Rightarrow> threads \<Rightarrow> stats" where
  "threads_stats H t =
     \<lparr>total_threads = length t,
      total_emails = sum_list (map (\<lambda>(k, history). length history) t),
      threads_with_history = length (filter (\<lambda>(k, history). 1 < length history) t),
      avg_emails_per_thread =
        average_of (sum_list (map (\<lambda>(k, history). length history) t)) (length t),
      threads_at_limit = length (filter (\<lambda>(k, history). H \<le> int (length history)) t),
      bot_replies =
        sum_list (map (\<lambda>(k, history).
          length (filter (\<lambda>e. dict_get (is_bot_reply e) False) history)) t),
      user_emails =
        sum_list (map (\<lambda>(k, history).
          length (filter (\<lambda>e. \<not> dict_get (is_bot_reply e) False) history)) t)\<rparr>"

text \<open>
  \<^verbatim>\<open>JSONStorageProvider.get_storage_stats\<close>; \<open>None\<close> is the error dict of the
  \<^verbatim>\<open>except\<close> branch. An empty dict gives the zero counters (the average is the
  literal \<^verbatim>\<open>0\<close>) without looking at the file size; otherwise the average is rounded
  to one decimal.
\<close>

definition json_get_storage_stats ::
  "int \<Rightarrow> io_plan \<Rightarrow> int \<Rightarrow> string \<Rightarrow> files \<Rightarrow> stats option \<times> files" where
  "json_get_storage_stats H pl now p fs =
     (let (t, fs1) = json_load_threads pl now p fs in
      if t = [] then
        (Some \<lparr>total_threads = 0, total_emails = 0, threads_with_history = 0,
                avg_emails_per_thread = Zero, threads_at_limit = 0, bot_replies = 0,
                user_emails = 0\<rparr>, fs1)
      else if fs1 p \<noteq> None \<and> getsize_fails pl then (None, fs1)
      else (Some ((threads_stats H t)
                    \<lparr>avg_emails_per_thread :=
                       round1 (avg_emails_per_thread (threads_stats H t))\<rparr>), fs1))"

subsection \<open>SQLiteStorageProvider\<close>

text \<open>
  One row of the table \<^verbatim>\<open>threads\<close> (the column \<^verbatim>\<open>created_at\<close> is never read). The
  table is the list of its rows in insertion order; \<open>next_id\<close> is the next value of the
  \<^verbatim>\<open>AUTOINCREMENT\<close> key.
\<close>

record row =
  row_id :: nat
  row_thread_id :: string
  row_uid :: "int option"
  row_sender :: string
  row_subject :: string
  row_body :: string
  row_timestamp :: string
  row_is_bot_reply :: bool

record database =
  rows :: "row list"
  next_id :: nat

text \<open>The values bound by the \<^verbatim>\<open>INSERT\<close>, with the defaults of the \<^verbatim>\<open>.get\<close> calls.\<close>

definition row_of :: "nat \<Rightarrow> string \<Rightarrow> email \<Rightarrow> row" where
  "row_of i thread_id e =
     \<lparr>row_id = i, row_thread_id = thread_id, row_uid = uid e,
      row_sender = dict_get (sender e) [], row_subject = dict_get (subject e) [],
      row_body = dict_get (body e) [], row_timestamp = dict_get (timestamp e) [],
      row_is_bot_reply = dict_get (is_bot_reply e) False\<rparr>"

text \<open>The dict built from a selected row.\<close>

definition email_of_row :: "row \<Rightarrow> email" where
  "email_of_row r =
     \<lparr>uid = row_uid r, sender = Some (row_sender r), subject = Some (row_subject r),
      body = Some (row_body r), timestamp = Some (row_timestamp r),
      is_bot_reply = Some (row_is_bot_reply r)\<rparr>"

definition sql_insert :: "string \<Rightarrow> email \<Rightarrow> database \<Rightarrow> database" where
  "sql_insert thread_id e db =
     db\<lparr>rows := rows db @ [row_of (next_id db) thread_id e], next_id := Suc (next_id db)\<rparr>"

text \<open>\<^verbatim>\<open>WHERE thread_id = ?\<close>\<close>

definition thread_rows :: "string \<Rightarrow> row list \<Rightarrow> row list" where
  "thread_rows thread_id rs = filter (\<lambda>r. row_thread_id r = thread_id) rs"

text \<open>
  \<^verbatim>\<open>ORDER BY timestamp\<close>. SQL leaves the order of rows with equal timestamps to the
  engine; here they stay in insertion order.
\<close>

definition order_by_timestamp :: "row list \<Rightarrow> row list" where
  "order_by_timestamp rs = sort_key row_timestamp rs"

text \<open>\<^verbatim>\<open>LIMIT n\<close>: SQLite takes a negative limit as no limit.\<close>

definition sql_limit :: "int \<Rightarrow> 'a list \<Rightarrow> 'a list" where
  "sql_limit n xs = (if n < 0 then xs else take (nat n) xs)"

text \<open>
  \<^verbatim>\<open>SQLiteStorageProvider.get_thread_history\<close>. \<open>ok\<close> is false when the database
  raises during the call (the \<^verbatim>\<open>except\<close> branch; the connection's context manager
  rolls the transaction back).
\<close>

definition sqlite_get_thread_history :: "int \<Rightarrow> bool \<Rightarrow> string \<Rightarrow> database \<Rightarrow> email list" where
  "sqlite_get_thread_history H ok thread_id db =
     (if thread_id = [] then []
      else if \<not> ok then []
      else map email_of_row
             (sql_limit H (order_by_timestamp (thread_rows thread_id (rows db)))))"

text \<open>
  Binding a Python \<^verbatim>\<open>int\<close> as a parameter of a statement: \<^verbatim>\<open>sqlite3\<close> raises
  \<^verbatim>\<open>OverflowError\<close> for a value outside 64 signed bits. The only \<^verbatim>\<open>int\<close> of a
  record is its \<^verbatim>\<open>uid\<close>; \<^verbatim>\<open>None\<close> binds as \<^verbatim>\<open>NULL\<close>.
\<close>

definition uid_fits :: "email \<Rightarrow> bool" where
  "uid_fits e = (case uid e of None \<Rightarrow> True | Some u \<Rightarrow> - (2 ^ 63) \<le> u \<and> u < 2 ^ 63)"

text \<open>
  \<^verbatim>\<open>SQLiteStorageProvider.add_email_to_thread\<close>: insert, count the thread's rows, and
  when there are more than \<open>H\<close> delete the rows of the thread whose id is among the first
  \<open>count - H\<close> of the thread by timestamp. A \<^verbatim>\<open>uid\<close> that cannot be bound makes the
  \<^verbatim>\<open>INSERT\<close> raise: the \<^verbatim>\<open>except\<close> branch returns \<^verbatim>\<open>False\<close> and nothing is
  stored.
\<close>

definition sqlite_add_email_to_thread ::
  "int \<Rightarrow> bool \<Rightarrow> string \<Rightarrow> email \<Rightarrow> database \<Rightarrow> bool \<times> database" where
  "sqlite_add_email_to_thread H ok thread_id email_data db =
     (if thread_id = [] then (False, db)
      else if \<not> ok then (False, db)
      else if \<not> uid_fits email_data then (False, db)
      else
        let db1 = sql_insert thread_id email_data db;
            count = int (length (thread_rows thread_id (rows db1)))
        in if H < count then
             let emails_to_remove = count - H;
                 ids = map row_id (sql_limit emails_to_remove
                         (order_by_timestamp (thread_rows thread_id (rows db1))))
             in (True, db1\<lparr>rows :=
                   filter (\<lambda>r. \<not> (row_thread_id r = thread_id \<and> row_id r \<in> set ids)) (rows db1)\<rparr>)
           else (True, db1))"

text \<open>
  \<^verbatim>\<open>SQLiteStorageProvider.load_threads\<close>: the rows \<^verbatim>\<open>ORDER BY thread_id, timestamp\<close>,
  each appended to the list of its thread in a dict built on the way. A database error
  gives the empty dict.
\<close>

definition sqlite_load_threads :: "bool \<Rightarrow> database \<Rightarrow> threads" where
  "sqlite_load_threads ok db =
     (if \<not> ok then []
      else fold (\<lambda>r t.
               let t1 = (if row_thread_id r \<notin> fst ` set t
                         then AList.update (row_thread_id r) [] t else t)
               in AList.update (row_thread_id r)
                    (threads_get t1 (row_thread_id r) @ [email_of_row r]) t1)
             (sort_key row_thread_id (sort_key row_timestamp (rows db))) [])"

text \<open>
  \<^verbatim>\<open>SQLiteStorageProvider.save_threads\<close>: delete every row, then insert the records
  thread by thread in the order of the dict, in one transaction; an \<^verbatim>\<open>INSERT\<close> that
  raises rolls all of it back.
\<close>

definition sqlite_save_threads :: "bool \<Rightarrow> threads \<Rightarrow> database \<Rightarrow> bool \<times> database" where
  "sqlite_save_threads ok t db =
     (if \<not> ok then (False, db)
      else if \<not> list_all (\<lambda>(thread_id, history). list_all uid_fits history) t then (False, db)
      else (True,
            fold (\<lambda>(thread_id, history) d. fold (sql_insert thread_id) history d) t
              (db\<lparr>rows := []\<rparr>)))"

text \<open>\<^verbatim>\<open>GROUP BY thread_id HAVING MAX(timestamp) < ?\<close>, on the rows of one thread.\<close>

definition group_is_old :: "string \<Rightarrow> row list \<Rightarrow> bool" where
  "group_is_old cutoff_iso rs =
     (case map row_timestamp rs of
        [] \<Rightarrow> False
      | x # xs \<Rightarrow> fold max xs x < cutoff_iso)"

text \<open>
  \<^verbatim>\<open>SQLiteStorageProvider.cleanup_old_threads(days_old)\<close>; \<open>clock\<close> is what
  \<^verbatim>\<open>datetime.now()\<close> returns. The cut-off is computed first, inside the \<^verbatim>\<open>try\<close>:
  an \<^verbatim>\<open>OverflowError\<close> there goes to the \<^verbatim>\<open>except\<close> branch, which returns 0. Then
  the distinct thread ids of the rows whose thread is in the grouped subquery are
  selected; all rows of those threads are deleted and the number of threads is returned.
\<close>

definition sqlite_cleanup_old_threads ::
  "bool \<Rightarrow> datetime \<Rightarrow> int \<Rightarrow> database \<Rightarrow> nat \<times> database" where
  "sqlite_cleanup_old_threads ok clock days_old db =
     (case cutoff_iso_of clock days_old of
        None \<Rightarrow> (0, db)
      | Some cutoff_iso \<Rightarrow>
          if \<not> ok then (0, db)
          else
            let old_groups =
                  filter (\<lambda>thread_id. group_is_old cutoff_iso (thread_rows thread_id (rows db)))
                    (remdups (map row_thread_id (rows db)));
                threads_to_remove =
                  remdups (map row_thread_id
                    (filter (\<lambda>r. row_thread_id r \<in> set old_groups) (rows db)))
            in if threads_to_remove \<noteq> []
               then (length threads_to_remove,
                     db\<lparr>rows := filter (\<lambda>r. row_thread_id r \<notin> set threads_to_remove) (rows db)\<rparr>)
               else (0, db))"

text \<open>
  \<^verbatim>\<open>SQLiteStorageProvider.get_storage_stats\<close>: the aggregate queries; the two
  \<^verbatim>\<open>GROUP BY ... HAVING COUNT(*)\<close> queries return one row per qualifying thread and
  the source counts these rows. The average is rounded to one decimal.
\<close>

definition sqlite_get_storage_stats :: "int \<Rightarrow> bool \<Rightarrow> database \<Rightarrow> stats option" where
  "sqlite_get_storage_stats H ok db =
     (if \<not> ok then None
      else
        let groups = remdups (map row_thread_id (rows db));
            total = length (rows db);
            bots = length (filter row_is_bot_reply (rows db))
        in Some
          \<lparr>total_threads = length groups,
           total_emails = total,
           threads_with_history =
             length (filter (\<lambda>g. 1 < length (thread_rows g (rows db))) groups),
           avg_emails_per_thread = round1 (average_of total (length groups)),
           threads_at_limit =
             length (filter (\<lambda>g. H \<le> int (length (thread_rows g (rows db)))) groups),
           bot_replies = bots,
           user_emails = total - bots\<rparr>)"

subsection \<open>MockStorageProvider\<close>

record mock =
  mock_threads :: threads
  operation_count :: nat

text \<open>
  \<^verbatim>\<open>str.lower\<close> follows the Unicode case mapping (the Kelvin sign, for one, becomes
  \<^verbatim>\<open>k\<close>), which is not written out here: the functions that call it take it as the
  parameter \<open>str_lower\<close>. \<open>ascii_lower\<close> is what it does on a string of ASCII characters.
\<close>

definition lower_char :: "char \<Rightarrow> char" where
  "lower_char c =
     (case map_of (zip ''ABCDEFGHIJKLMNOPQRSTUVWXYZ'' ''abcdefghijklmnopqrstuvwxyz'') c of
        None \<Rightarrow> c
      | Some d \<Rightarrow> d)"

definition ascii_lower :: "string \<Rightarrow> string" where
  "ascii_lower s = map lower_char s"

text \<open>\<^verbatim>\<open>sub in s\<close> on strings.\<close>

fun is_prefix :: "'a list \<Rightarrow> 'a list \<Rightarrow> bool" where
  "is_prefix [] ys = True"
| "is_prefix (x # xs) [] = False"
| "is_prefix (x # xs) (y # ys) = (x = y \<and> is_prefix xs ys)"

fun py_in :: "'a list \<Rightarrow> 'a list \<Rightarrow> bool" where
  "py_in sub [] = (sub = [])"
| "py_in sub (c # cs) = (is_prefix sub (c # cs) \<or> py_in sub cs)"

definition mock_load_threads :: "mock \<Rightarrow> threads \<times> mock" where
  "mock_load_threads m = (mock_threads m, m\<lparr>operation_count := operation_count m + 1\<rparr>)"

definition mock_save_threads :: "threads \<Rightarrow> mock \<Rightarrow> bool \<times> mock" where
  "mock_save_threads t m =
     (True, m\<lparr>mock_threads := t, operation_count := operation_count m + 1\<rparr>)"

definition mock_get_thread_history :: "string \<Rightarrow> mock \<Rightarrow> email list \<times> mock" where
  "mock_get_thread_history thread_id m =
     (threads_get (mock_threads m) thread_id, m\<lparr>operation_count := operation_count m + 1\<rparr>)"

text \<open>\<^verbatim>\<open>MockStorageProvider.add_email_to_thread\<close>: no test of the thread id.\<close>

definition mock_add_email_to_thread :: "int \<Rightarrow> string \<Rightarrow> email \<Rightarrow> mock \<Rightarrow> bool \<times> mock" where
  "mock_add_email_to_thread H thread_id email_data m =
     (let t = mock_threads m;
          t1 = (if thread_id \<notin> fst ` set t then AList.update thread_id [] t else t);
          t2 = AList.update thread_id (threads_get t1 thread_id @ [email_data]) t1;
          t3 = (if H < int (length (threads_get t2 thread_id))
                then AList.update thread_id (py_last_slice H (threads_get t2 thread_id)) t2
                else t2)
      in (True, m\<lparr>mock_threads := t3, operation_count := operation_count m + 1\<rparr>))"

text \<open>
  \<^verbatim>\<open>MockStorageProvider.cleanup_old_threads\<close>: the threads with \<^verbatim>\<open>'old'\<close> in the
  lowercased id are deleted, whatever \<^verbatim>\<open>days_old\<close> and the timestamps are.
\<close>

definition mock_cleanup_old_threads :: "(string \<Rightarrow> string) \<Rightarrow> mock \<Rightarrow> nat \<times> mock" where
  "mock_cleanup_old_threads str_lower m =
     (let old_threads = filter (\<lambda>tid. py_in ''old'' (str_lower tid)) (map fst (mock_threads m))
      in (length old_threads,
          m\<lparr>mock_threads := fold AList.delete old_threads (mock_threads m),
            operation_count := operation_count m + 1\<rparr>))"

definition mock_get_storage_stats :: "int \<Rightarrow> mock \<Rightarrow> stats" where
  "mock_get_storage_stats H m = threads_stats H (mock_threads m)"

subsection \<open>The provider factory\<close>

text \<open>
  A value of the YAML configuration, as \<^verbatim>\<open>config.get\<close> returns it: a string, or
  something that is not a string (\<^verbatim>\<open>null\<close>, a boolean, an integer; \<open>YOther\<close> is a
  float, a list or a mapping, not detailed).
\<close>

datatype yaml =
  YStr string
| YNull
| YBool bool
| YInt int
| YOther

text \<open>
  What the factory reads from the configuration: \<^verbatim>\<open>storage.provider\<close> (\<open>None\<close> when
  the key is not set, so that the default \<^verbatim>\<open>"json"\<close> applies), \<^verbatim>\<open>config.threads_file\<close>
  and \<^verbatim>\<open>storage.sqlite_path\<close> with their defaults applied.
\<close>

record config =
  storage_provider :: "yaml option"
  threads_file :: string
  sqlite_path :: string

datatype provider =
  JSONStorageProvider string
| SQLiteStorageProvider string
| MockStorageProvider

datatype init_error = AttributeError | DatabaseInitError

text \<open>
  \<^verbatim>\<open>get_storage_provider\<close>. A configured value that is not a string has no method
  \<^verbatim>\<open>lower\<close>: the call raises \<^verbatim>\<open>AttributeError\<close>, which nothing catches. Of the
  constructors only that of the SQLite provider does I/O (\<^verbatim>\<open>_initialize_database\<close>,
  which re-raises); \<open>db_init_ok\<close> says whether it succeeds.
\<close>

definition get_storage_provider ::
  "(string \<Rightarrow> string) \<Rightarrow> config \<Rightarrow> bool \<Rightarrow> init_error + provider" where
  "get_storage_provider str_lower cfg db_init_ok =
     (case dict_get (storage_provider cfg) (YStr ''json'') of
        YStr s \<Rightarrow>
          (let provider_type = str_lower s in
           if provider_type = ''json'' then Inr (JSONStorageProvider (threads_file cfg))
           else if provider_type = ''sqlite'' then
             (if db_init_ok then Inr (SQLiteStorageProvider (sqlite_path cfg))
              else Inl DatabaseInitError)
           else if provider_type = ''mock'' then Inr MockStorageProvider
           else Inr (JSONStorageProvider (threads_file cfg)))
      | _ \<Rightarrow> Inl AttributeError)"

subsection \<open>The public functions of the module\<close>

text \<open>
  The module-level \<^verbatim>\<open>storage_provider\<close> together with what it stores: the files for
  the JSON provider (with its \<^verbatim>\<open>file_path\<close>), the table for the SQLite provider, the
  object's fields for the mock provider.
\<close>

datatype store =
  JSONStore string files
| SQLiteStore database
| MockStore mock

text \<open>
  What a call takes from outside the store: \<^verbatim>\<open>MAX_THREAD_HISTORY\<close>, the failures
  of the operating system and of the database during the call, and the two clock
  readings \<^verbatim>\<open>datetime.now().isoformat()\<close> and \<^verbatim>\<open>int(time.time())\<close>.
\<close>

record env =
  max_thread_history :: int
  io :: io_plan
  db_ok :: bool
  now_iso :: string
  now_secs :: int

text \<open>\<^verbatim>\<open>storage_provider.add_email_to_thread(thread_id, email_data)\<close>\<close>

definition provider_add_email_to_thread :: "env \<Rightarrow> string \<Rightarrow> email \<Rightarrow> store \<Rightarrow> bool \<times> store" where
  "provider_add_email_to_thread ev thread_id email_data st =
     (case st of
        JSONStore p fs \<Rightarrow>
          (let (b, fs') = json_add_email_to_thread (max_thread_history ev) (io ev) (now_secs ev)
                            p thread_id email_data fs
           in (b, JSONStore p fs'))
      | SQLiteStore db \<Rightarrow>
          (let (b, db') = sqlite_add_email_to_thread (max_thread_history ev) (db_ok ev)
                            thread_id email_data db
           in (b, SQLiteStore db'))
      | MockStore m \<Rightarrow>
          (let (b, m') = mock_add_email_to_thread (max_thread_history ev) thread_id email_data m
           in (b, MockStore m')))"

text \<open>
  The public \<^verbatim>\<open>add_email_to_thread\<close>: it builds the dict with the six keys, the
  timestamp read from the clock, and hands it to the provider; it has no test of its own.
\<close>

definition add_email_to_thread ::
  "env \<Rightarrow> string \<Rightarrow> string \<Rightarrow> string \<Rightarrow> string \<Rightarrow> int option \<Rightarrow> bool \<Rightarrow> store \<Rightarrow> bool \<times> store" where
  "add_email_to_thread ev thread_id sender' subject' body' uid' is_bot_reply' st =
     provider_add_email_to_thread ev thread_id
       \<lparr>uid = uid', sender = Some sender', subject = Some subject', body = Some body',
        timestamp = Some (now_iso ev), is_bot_reply = Some is_bot_reply'\<rparr> st"

text \<open>The public \<^verbatim>\<open>get_thread_history\<close>: \<^verbatim>\<open>storage_provider.get_thread_history(thread_id)\<close>.\<close>

definition get_thread_history :: "env \<Rightarrow> string \<Rightarrow> store \<Rightarrow> email list \<times> store" where
  "get_thread_history ev thread_id st =
     (case st of
        JSONStore p fs \<Rightarrow>
          (let (h, fs') = json_get_thread_history (io ev) (now_secs ev) p thread_id fs
           in (h, JSONStore p fs'))
      | SQLiteStore db \<Rightarrow>
          (sqlite_get_thread_history (max_thread_history ev) (db_ok ev) thread_id db,
           SQLiteStore db)
      | MockStore m \<Rightarrow>
          (let (h, m') = mock_get_thread_history thread_id m in (h, MockStore m')))"

subsection \<open>format\_thread\_context\<close>

definition newline :: string where
  "newline = [CHR 0x0A]"

text \<open>\<^verbatim>\<open>sep.join(xs)\<close>\<close>

fun py_join :: "string \<Rightarrow> string list \<Rightarrow> string" where
  "py_join sep [] = []"
| "py_join sep [x] = x"
| "py_join sep (x # y # ys) = x @ sep @ py_join sep (y # ys)"

text \<open>The label of one record.\<close>

definition sender_label :: "email \<Rightarrow> string" where
  "sender_label e =
     (if dict_get (is_bot_reply e) False then ''Bot'' else dict_get (sender e) ''Unknown'')"

text \<open>
  The body of the \<^verbatim>\<open>for\<close> loop; the state is \<^verbatim>\<open>context_lines\<close>, \<^verbatim>\<open>bot_count\<close> and
  \<^verbatim>\<open>user_count\<close>.
\<close>

definition format_step :: "string list \<times> nat \<times> nat \<Rightarrow> email \<Rightarrow> string list \<times> nat \<times> nat" where
  "format_step s e =
     (case s of (context_lines, bot_count, user_count) \<Rightarrow>
        (context_lines @
           [newline @ ''From: '' @ sender_label e,
            ''Subject: '' @ dict_get (subject e) ''No subject'',
            ''Message: '' @ dict_get (body e) ''No content'',
            replicate 40 (CHR ''-'')],
         (if dict_get (is_bot_reply e) False then bot_count + 1 else bot_count),
         (if dict_get (is_bot_reply e) False then user_count else user_count + 1)))"

definition format_thread_context :: "email list \<Rightarrow> string" where
  "format_thread_context thread_history =
     (if thread_history = [] then []
      else
        case foldl format_step ([''Here is the conversation history:''], 0, 0) thread_history of
          (context_lines, bot_count, user_count) \<Rightarrow>
            py_join newline
              (context_lines @ [newline @ ''Now please reply to the latest email below:'']))"

subsection \<open>Sequences of appends\<close>

text \<open>
  A sequence of \<^verbatim>\<open>add_email_to_thread(thread_id, email_data)\<close> calls on one provider,
  nothing failing, each call on the state the one before left.
\<close>

definition json_append_all ::
  "int \<Rightarrow> int \<Rightarrow> string \<Rightarrow> (string \<times> email) list \<Rightarrow> files \<Rightarrow> files" where
  "json_append_all H now p ops fs =
     fold (\<lambda>op fs'. snd (json_add_email_to_thread H io_ok now p (fst op) (snd op) fs')) ops fs"

definition sqlite_append_all :: "int \<Rightarrow> (string \<times> email) list \<Rightarrow> database \<Rightarrow> database" where
  "sqlite_append_all H ops db =
     fold (\<lambda>op db'. snd (sqlite_add_email_to_thread H True (fst op) (snd op) db')) ops db"

definition mock_append_all :: "int \<Rightarrow> (string \<times> email) list \<Rightarrow> mock \<Rightarrow> mock" where
  "mock_append_all H ops m =
     fold (\<lambda>op m'. snd (mock_add_email_to_thread H (fst op) (snd op) m')) ops m"

text \<open>The records appended to one thread, in append order.\<close>

definition appended_to :: "string \<Rightarrow> (string \<times> email) list \<Rightarrow> email list" where
  "appended_to thread_id ops = map snd (filter (\<lambda>op. fst op = thread_id) ops)"

text \<open>The most recent \<open>H\<close> elements of a list that is in append order, in that order.\<close>

definition last_n :: "int \<Rightarrow> 'a list \<Rightarrow> 'a list" where
  "last_n H xs = drop (length xs - nat H) xs"

text \<open>
  A record as the SQLite provider gives it back: every column is a key of the dict, a
  key missing at the insert has the default of the insert.
\<close>

definition sql_form :: "email \<Rightarrow> email" where
  "sql_form e =
     \<lparr>uid = uid e, sender = Some (dict_get (sender e) []),
      subject = Some (dict_get (subject e) []), body = Some (dict_get (body e) []),
      timestamp = Some (dict_get (timestamp e) []),
      is_bot_reply = Some (dict_get (is_bot_reply e) False)\<rparr>"

subsection \<open>Sequences of calls on one provider\<close>

text \<open>
  The calls of the storage contract that the parity of the providers is about, and what
  each returns. \<open>Cleanup clock days_old\<close> is the call \<^verbatim>\<open>cleanup_old_threads(days_old)\<close>
  made when \<^verbatim>\<open>datetime.now()\<close> is \<open>clock\<close>.
\<close>

datatype call =
  Append string email
| GetHistory string
| Cleanup datetime int
| Stats

datatype result =
  Appended bool
| History "email list"
| Removed nat
| Counters "stats option"

text \<open>One call on each provider, nothing failing.\<close>

definition json_call :: "int \<Rightarrow> int \<Rightarrow> string \<Rightarrow> call \<Rightarrow> files \<Rightarrow> result \<times> files" where
  "json_call H now p c fs =
     (case c of
        Append k e \<Rightarrow>
          (let (b, fs') = json_add_email_to_thread H io_ok now p k e fs in (Appended b, fs'))
      | GetHistory k \<Rightarrow>
          (let (h, fs') = json_get_thread_history io_ok now p k fs in (History h, fs'))
      | Cleanup clock days_old \<Rightarrow>
          (let (n, fs') = json_cleanup_old_threads io_ok now p clock days_old fs
           in (Removed n, fs'))
      | Stats \<Rightarrow>
          (let (s, fs') = json_get_storage_stats H io_ok now p fs in (Counters s, fs')))"

definition sqlite_call :: "int \<Rightarrow> call \<Rightarrow> database \<Rightarrow> result \<times> database" where
  "sqlite_call H c db =
     (case c of
        Append k e \<Rightarrow>
          (let (b, db') = sqlite_add_email_to_thread H True k e db in (Appended b, db'))
      | GetHistory k \<Rightarrow> (History (sqlite_get_thread_history H True k db), db)
      | Cleanup clock days_old \<Rightarrow>
          (let (n, db') = sqlite_cleanup_old_threads True clock days_old db in (Removed n, db'))
      | Stats \<Rightarrow> (Counters (sqlite_get_storage_stats H True db), db))"

definition mock_call :: "int \<Rightarrow> (string \<Rightarrow> string) \<Rightarrow> call \<Rightarrow> mock \<Rightarrow> result \<times> mock" where
  "mock_call H str_lower c m =
     (case c of
        Append k e \<Rightarrow>
          (let (b, m') = mock_add_email_to_thread H k e m in (Appended b, m'))
      | GetHistory k \<Rightarrow>
          (let (h, m') = mock_get_thread_history k m in (History h, m'))
      | Cleanup clock days_old \<Rightarrow>
          (let (n, m') = mock_cleanup_old_threads str_lower m in (Removed n, m'))
      | Stats \<Rightarrow> (Counters (Some (mock_get_storage_stats H m)), m))"

text \<open>The results of a sequence of calls, each on the state the one before left.\<close>

fun run :: "(call \<Rightarrow> 's \<Rightarrow> result \<times> 's) \<Rightarrow> call list \<Rightarrow> 's \<Rightarrow> result list" where
  "run step [] s = []"
| "run step (c # cs) s = (case step c s of (r, s') \<Rightarrow> r # run step cs s')"

text \<open>The records of the \<open>Append\<close> calls of a sequence, in call order.\<close>

fun appended :: "call list \<Rightarrow> email list" where
  "appended [] = []"
| "appended (Append k e # cs) = e # appended cs"
| "appended (c # cs) = appended cs"

text \<open>No \<open>Cleanup\<close> call, and no \<open>Append\<close> with the empty thread id.\<close>

fun plain_call :: "call \<Rightarrow> bool" where
  "plain_call (Append k e) = (k \<noteq> [])"
| "plain_call (Cleanup clock days_old) = False"
| "plain_call c = True"

text \<open>The list after the trim step of \<^verbatim>\<open>add_email_to_thread\<close>.\<close>

definition trimmed :: "int \<Rightarrow> 'a list \<Rightarrow> 'a list" where
  "trimmed H xs = (if H < int (length xs) then py_last_slice H xs else xs)"

text \<open>
  The dict a working \<^verbatim>\<open>load_threads\<close> of the JSON provider gives: the empty dict for
  a missing file, the dict of the document otherwise.
\<close>

definition file_holds :: "files \<Rightarrow> string \<Rightarrow> threads \<Rightarrow> bool" where
  "file_holds fs p t = (fs p = None \<and> t = [] \<or> fs p = Some (Document t))"

text \<open>
  The SQLite table holds what the dict of the JSON provider holds: thread by thread the
  same records in the same order, the rows of a thread in strictly increasing timestamp
  order and at most \<open>H\<close> of them, no thread without records in the dict, and row ids
  that are distinct and below the next id.
\<close>

definition same_content :: "int \<Rightarrow> threads \<Rightarrow> database \<Rightarrow> bool" where
  "same_content H t db =
     (distinct (map fst t) \<and> [] \<notin> snd ` set t \<and>
      distinct (map row_id (rows db)) \<and>
      (\<forall>r\<in>set (rows db). row_id r < next_id db) \<and>
      (\<forall>k. map email_of_row (thread_rows k (rows db)) = threads_get t k) \<and>
      (\<forall>k. sorted_wrt (<) (map row_timestamp (thread_rows k (rows db)))) \<and>
      (\<forall>k. int (length (threads_get t k)) \<le> H))"

subsection \<open>Stale threads\<close>


subsection \<open>Concrete data\<close>

text \<open>Four records as the public \<^verbatim>\<open>add_email_to_thread\<close> builds them, at four clock readings.\<close>

definition mk_email :: "string \<Rightarrow> string \<Rightarrow> string \<Rightarrow> string \<Rightarrow> bool \<Rightarrow> email" where
  "mk_email sender' subject' body' ts is_bot =
     \<lparr>uid = None, sender = Some sender', subject = Some subject', body = Some body',
      timestamp = Some ts, is_bot_reply = Some is_bot\<rparr>"

definition rec_A :: email where
  "rec_A = mk_email ''ann@example.com'' ''Question'' ''A'' ''2024-03-01T09:00:00'' False"

definition rec_B :: email where
  "rec_B = mk_email ''bot@example.com'' ''Re: Question'' ''B'' ''2024-03-01T09:00:05.250000'' True"

definition rec_C :: email where
  "rec_C = mk_email ''ann@example.com'' ''Re: Question'' ''C'' ''2024-03-01T09:10:00'' False"

definition rec_D :: email where
  "rec_D = mk_email ''bot@example.com'' ''Re: Question'' ''D'' ''2024-03-01T09:10:07.500000'' True"

text \<open>A record whose \<^verbatim>\<open>uid\<close> is \<open>2\<^sup>6\<^sup>3\<close>.\<close>

definition rec_big :: email where
  "rec_big = (mk_email ''eve@example.com'' ''Hello'' ''E'' ''2024-03-01T09:15:00'' False)
               \<lparr>uid := Some 9223372036854775808\<rparr>"

definition dump_breaks :: io_plan where
  "dump_breaks = io_ok\<lparr>dump_fails := Some ''{ t1: [ {''\<rparr>"

definition size_breaks :: io_plan where
  "size_breaks = io_ok\<lparr>getsize_fails := True\<rparr>"

definition one_file :: "string \<Rightarrow> content \<Rightarrow> files" where
  "one_file p c = Map.empty(p \<mapsto> c)"

definition empty_mock :: mock where
  "empty_mock = \<lparr>mock_threads = [], operation_count = 0\<rparr>"

definition empty_db :: database where
  "empty_db = \<lparr>rows = [], next_id = 1\<rparr>"

text \<open>A call during which nothing fails, with \<^verbatim>\<open>MAX_THREAD_HISTORY\<close> set to \<open>H\<close>.\<close>

definition env_ok :: "int \<Rightarrow> env" where
  "env_ok H = \<lparr>max_thread_history = H, io = io_ok, db_ok = True,
              now_iso = ''2024-03-01T09:20:00'', now_secs = 1709284800\<rparr>"

definition dict_AB :: threads where
  "dict_AB = [(''t1'', [rec_A, rec_B])]"

definition db_AB :: database where
  "db_AB = \<lparr>rows = [row_of 1 ''t1'' rec_A, row_of 2 ''t1'' rec_B], next_id = 3\<rparr>"

text \<open>
  A store read when the clock is at \<^verbatim>\<open>2024-03-01T09:20:00\<close>: the thread \<^verbatim>\<open>old\<close>
  was last written 40 days before, the thread \<^verbatim>\<open>new\<close> one day before (and has an
  older record too).
\<close>

definition clock_0301 :: datetime where
  "clock_0301 = \<lparr>dt_year = 2024, dt_month = 3, dt_day = 1, dt_hour = 9, dt_minute = 20,
                  dt_second = 0, dt_microsecond = 0\<rparr>"


definition rec_O2 :: email where
  "rec_O2 = mk_email ''bot@example.com'' ''Re: Invoice'' ''O2'' ''2024-01-21T09:20:00'' True"


definition rec_N2 :: email where
  "rec_N2 = mk_email ''dana@example.com'' ''Re: Order'' ''N2'' ''2024-02-29T09:20:00'' False"



subsection \<open>MockStorageProvider with its objects on a heap\<close>

text \<open>
  The mock provider keeps Python objects and hands out copies of them made with
  \<^verbatim>\<open>dict.copy()\<close> and \<^verbatim>\<open>list.copy()\<close>. To follow which objects a caller can reach,
  objects live at addresses: the dict of threads maps a thread id to the address of a
  list, a list holds the addresses of record dicts. \<open>next_addr\<close> is the next free
  address.
\<close>

datatype pyobj =
  DictObj "(string \<times> nat) list"
| ListObj "nat list"
| EmailObj email

record heap =
  cell :: "nat \<Rightarrow> pyobj option"
  next_addr :: nat

definition alloc :: "pyobj \<Rightarrow> heap \<Rightarrow> nat \<times> heap" where
  "alloc obj h =
     (next_addr h, h\<lparr>cell := (cell h)(next_addr h \<mapsto> obj), next_addr := Suc (next_addr h)\<rparr>)"

text \<open>\<^verbatim>\<open>self.threads\<close> is the address of the dict of threads.\<close>

record mock_object =
  threads_ref :: nat
  operation_count' :: nat

text \<open>
  \<^verbatim>\<open>MockStorageProvider.load_threads\<close>: \<^verbatim>\<open>self.threads.copy()\<close> is a new dict with
  the same values, that is the addresses of the same lists. \<open>None\<close> stands for a heap
  where \<^verbatim>\<open>self.threads\<close> is not a dict, which no call produces.
\<close>

definition heap_load_threads :: "mock_object \<Rightarrow> heap \<Rightarrow> (nat \<times> mock_object \<times> heap) option" where
  "heap_load_threads m h =
     (case cell h (threads_ref m) of
        Some (DictObj d) \<Rightarrow>
          (let (a, h') = alloc (DictObj d) h
           in Some (a, m\<lparr>operation_count' := operation_count' m + 1\<rparr>, h'))
      | _ \<Rightarrow> None)"

text \<open>
  \<^verbatim>\<open>MockStorageProvider.get_thread_history\<close>:
  \<^verbatim>\<open>self.threads.get(thread_id, []).copy()\<close> is a new list with the same elements, that
  is the addresses of the same record dicts.
\<close>

definition heap_get_thread_history ::
  "string \<Rightarrow> mock_object \<Rightarrow> heap \<Rightarrow> (nat \<times> mock_object \<times> heap) option" where
  "heap_get_thread_history thread_id m h =
     (case cell h (threads_ref m) of
        Some (DictObj d) \<Rightarrow>
          (case map_of d thread_id of
             Some l \<Rightarrow>
               (case cell h l of
                  Some (ListObj es) \<Rightarrow>
                    (let (a, h') = alloc (ListObj es) h
                     in Some (a, m\<lparr>operation_count' := operation_count' m + 1\<rparr>, h'))
                | _ \<Rightarrow> None)
           | None \<Rightarrow>
               (let (l, h1) = alloc (ListObj []) h;
                    (a, h') = alloc (ListObj []) h1
                in Some (a, m\<lparr>operation_count' := operation_count' m + 1\<rparr>, h')))
      | _ \<Rightarrow> None)"

text \<open>
  \<^verbatim>\<open>MockStorageProvider.add_email_to_thread\<close>: a missing thread gets a new empty list;
  \<^verbatim>\<open>email_data.copy()\<close> is a new record dict, appended to the thread's list in place;
  the slice of the trim is a new list, stored in the dict in place of the old one.
\<close>

definition heap_add_email_to_thread ::
  "int \<Rightarrow> string \<Rightarrow> email \<Rightarrow> mock_object \<Rightarrow> heap \<Rightarrow> (bool \<times> mock_object \<times> heap) option" where
  "heap_add_email_to_thread H thread_id email_data m h =
     (case cell h (threads_ref m) of
        Some (DictObj d) \<Rightarrow>
          (let (l, d1, h1) =
                 (case map_of d thread_id of
                    Some l \<Rightarrow> (l, d, h)
                  | None \<Rightarrow>
                      (let (l, h') = alloc (ListObj []) h
                       in (l, AList.update thread_id l d,
                           h'\<lparr>cell := (cell h')(threads_ref m \<mapsto>
                                 DictObj (AList.update thread_id l d))\<rparr>)))
           in case cell h1 l of
                Some (ListObj es) \<Rightarrow>
                  (let (e, h2) = alloc (EmailObj email_data) h1;
                       es' = es @ [e];
                       h3 = h2\<lparr>cell := (cell h2)(l \<mapsto> ListObj es')\<rparr>;
                       h4 = (if H < int (length es')
                             then (let (l', h') = alloc (ListObj (py_last_slice H es')) h3
                                   in h'\<lparr>cell := (cell h')(threads_ref m \<mapsto>
                                         DictObj (AList.update thread_id l' d1))\<rparr>)
                             else h3)
                   in Some (True, m\<lparr>operation_count' := operation_count' m + 1\<rparr>, h4))
              | _ \<Rightarrow> None)
      | _ \<Rightarrow> None)"

text \<open>
  What a caller does with a list it was given: \<^verbatim>\<open>history[i]['body'] = text\<close>, an
  assignment into the record dict at position \<open>i\<close> of the list at address \<open>a\<close>.
\<close>

definition caller_set_body :: "nat \<Rightarrow> nat \<Rightarrow> string \<Rightarrow> heap \<Rightarrow> heap option" where
  "caller_set_body a i text h =
     (case cell h a of
        Some (ListObj es) \<Rightarrow>
          (if i < length es then
             (case cell h (es ! i) of
                Some (EmailObj e) \<Rightarrow>
                  Some (h\<lparr>cell := (cell h)(es ! i \<mapsto> EmailObj (e\<lparr>body := Some text\<rparr>))\<rparr>)
              | _ \<Rightarrow> None)
           else None)
      | _ \<Rightarrow> None)"

text \<open>The records a list object holds, read through the addresses.\<close>

definition list_value :: "nat \<Rightarrow> heap \<Rightarrow> email list option" where
  "list_value a h =
     (case cell h a of
        Some (ListObj es) \<Rightarrow>
          those (map (\<lambda>e. case cell h e of Some (EmailObj x) \<Rightarrow> Some x | _ \<Rightarrow> None) es)
      | _ \<Rightarrow> None)"

text \<open>
  A fresh mock provider (\<^verbatim>\<open>self.threads = {}\<close> at address 0), then one record added
  to the thread \<^verbatim>\<open>t1\<close>; a first read of the thread; the caller's assignment to the
  body of the first record of the list it got; a second read.
\<close>

definition fresh_mock :: "mock_object \<times> heap" where
  "fresh_mock =
     (\<lparr>threads_ref = 0, operation_count' = 0\<rparr>,
      \<lparr>cell = Map.empty(0 \<mapsto> DictObj []), next_addr = 1\<rparr>)"

definition read_twice :: "bool \<Rightarrow> (email list \<times> email list) option" where
  "read_twice caller_assigns =
     (case heap_add_email_to_thread 5 ''t1'' rec_A (fst fresh_mock) (snd fresh_mock) of
        None \<Rightarrow> None
      | Some (ok, m1, h1) \<Rightarrow>
          (case heap_get_thread_history ''t1'' m1 h1 of
             None \<Rightarrow> None
           | Some (a1, m2, h2) \<Rightarrow>
               (case (if caller_assigns then caller_set_body a1 0 ''tampered'' h2 else Some h2) of
                  None \<Rightarrow> None
                | Some h3 \<Rightarrow>
                    (case heap_get_thread_history ''t1'' m2 h3 of
                       None \<Rightarrow> None
                     | Some (a2, m3, h4) \<Rightarrow>
                         (case (list_value a1 h2, list_value a2 h4) of
                            (Some first, Some second) \<Rightarrow> Some (first, second)
                          | _ \<Rightarrow> None)))))"

text \<open>Two sequences of calls, the second with a clean-up.\<close>

definition calls_plain :: "call list" where
  "calls_plain =
     [Append ''t1'' rec_A, Append ''t1'' rec_B, Append ''t1'' rec_C, GetHistory ''t1'', Stats]"

definition calls_cleanup :: "call list" where
  "calls_cleanup =
     [Append ''old'' rec_O2, Append ''new'' rec_N2, Cleanup clock_0301 30,
      GetHistory ''new'', Stats]"

section \<open>Theorems\<close>

lemma temp_file_neq: "temp_file p \<noteq> p" "p \<noteq> temp_file p"
  by (simp_all add: temp_file_def)

subsection \<open>Saving, loading and choosing the provider\<close>

text \<open>
  Claim C3, as amended. If \<^verbatim>\<open>save_threads\<close> of the JSON provider fails while writing
  (opening the temporary file, dumping, or replacing the target), it returns \<open>False\<close> and
  the target file is what it was before the call; when the \<^verbatim>\<open>os.remove\<close> of the
  clean-up works, no temporary file is left. If only the reading of the new size fails,
  after the replacement, it returns \<open>False\<close> too, with the target holding the new mapping
  and no temporary file. With no failure it returns \<open>True\<close>, the target holds the dumped
  mapping and the temporary file is gone. In every case the target is replaced in one
  step, by the \<^verbatim>\<open>os.replace\<close> of the fully written temporary file: in each
  file-system state the call goes through, the target is either what it was or the
  complete new document.
\<close>

theorem json_save_threads_atomic:
  "(write_fails pl \<longrightarrow>
      fst (json_save_threads pl p t fs) = False \<and>
      snd (json_save_threads pl p t fs) p = fs p) \<and>
   (write_fails pl \<and> \<not> remove_fails pl \<longrightarrow>
      snd (json_save_threads pl p t fs) (temp_file p) = None) \<and>
   (\<not> write_fails pl \<and> getsize_fails pl \<longrightarrow>
      json_save_threads pl p t fs = (False, fs(p \<mapsto> Document t, temp_file p := None))) \<and>
   (\<not> write_fails pl \<and> \<not> getsize_fails pl \<longrightarrow>
      json_save_threads pl p t fs = (True, fs(p \<mapsto> Document t, temp_file p := None))) \<and>
   list_all (\<lambda>s. s p = fs p \<or> s p = Some (Document t)) (json_save_trace pl p t fs) \<and>
   last (json_save_trace pl p t fs) = snd (json_save_threads pl p t fs)"
  by (auto simp: json_save_threads_def json_save_trace_def write_fails_def save_cleanup_def
      temp_file_neq Let_def fun_upd_twist split: option.splits)

theorem json_save_threads_atomic_witness:
  "write_fails dump_breaks \<and> \<not> remove_fails dump_breaks \<and>
   fst (json_save_threads dump_breaks ''email_threads.json'' [(''t1'', [rec_A, rec_B])]
          (one_file ''email_threads.json'' (Document [(''t1'', [rec_A])]))) = False \<and>
   snd (json_save_threads dump_breaks ''email_threads.json'' [(''t1'', [rec_A, rec_B])]
          (one_file ''email_threads.json'' (Document [(''t1'', [rec_A])]))) ''email_threads.json''
     = Some (Document [(''t1'', [rec_A])]) \<and>
   snd (json_save_threads dump_breaks ''email_threads.json'' [(''t1'', [rec_A, rec_B])]
          (one_file ''email_threads.json'' (Document [(''t1'', [rec_A])])))
     (temp_file ''email_threads.json'') = None \<and>
   \<not> write_fails size_breaks \<and> getsize_fails size_breaks \<and>
   json_save_threads size_breaks ''email_threads.json'' [(''t1'', [rec_A, rec_B])]
          (one_file ''email_threads.json'' (Document [(''t1'', [rec_A])]))
     = (False, (one_file ''email_threads.json'' (Document [(''t1'', [rec_A])]))
          (''email_threads.json'' \<mapsto> Document [(''t1'', [rec_A, rec_B])],
           temp_file ''email_threads.json'' := None)) \<and>
   \<not> write_fails io_ok \<and> \<not> getsize_fails io_ok \<and>
   json_save_threads io_ok ''email_threads.json'' [(''t1'', [rec_A, rec_B])]
          (one_file ''email_threads.json'' (Document [(''t1'', [rec_A])]))
     = (True, (one_file ''email_threads.json'' (Document [(''t1'', [rec_A])]))
          (''email_threads.json'' \<mapsto> Document [(''t1'', [rec_A, rec_B])],
           temp_file ''email_threads.json'' := None))"
  using json_save_threads_atomic [of dump_breaks "''email_threads.json''" "[(''t1'', [rec_A, rec_B])]"
          "one_file ''email_threads.json'' (Document [(''t1'', [rec_A])])"]
        json_save_threads_atomic [of size_breaks "''email_threads.json''" "[(''t1'', [rec_A, rec_B])]"
          "one_file ''email_threads.json'' (Document [(''t1'', [rec_A])])"]
        json_save_threads_atomic [of io_ok "''email_threads.json''" "[(''t1'', [rec_A, rec_B])]"
          "one_file ''email_threads.json'' (Document [(''t1'', [rec_A])])"]
  by (simp add: write_fails_def dump_breaks_def size_breaks_def io_ok_def one_file_def)

text \<open>
  The claim as stated fails at two points of failure. When \<^verbatim>\<open>os.path.getsize\<close> raises
  after the replacement, \<^verbatim>\<open>save_threads\<close> returns \<open>False\<close> although the file already
  holds the new mapping, not its state before the call. When the dump raises and the
  \<^verbatim>\<open>os.remove\<close> of the clean-up raises too, the half-written temporary file stays
  beside the target.
\<close>

theorem json_save_threads_failure_counterexample:
  "json_save_threads size_breaks ''email_threads.json'' [(''t1'', [rec_A, rec_B])]
          (one_file ''email_threads.json'' (Document [(''t1'', [rec_A])]))
     = (False, (one_file ''email_threads.json'' (Document [(''t1'', [rec_A])]))
          (''email_threads.json'' \<mapsto> Document [(''t1'', [rec_A, rec_B])],
           temp_file ''email_threads.json'' := None)) \<and>
   Document [(''t1'', [rec_A, rec_B])] \<noteq> Document [(''t1'', [rec_A])] \<and>
   fst (json_save_threads (dump_breaks\<lparr>remove_fails := True\<rparr>) ''email_threads.json''
          [(''t1'', [rec_A, rec_B])]
          (one_file ''email_threads.json'' (Document [(''t1'', [rec_A])]))) = False \<and>
   snd (json_save_threads (dump_breaks\<lparr>remove_fails := True\<rparr>) ''email_threads.json''
          [(''t1'', [rec_A, rec_B])]
          (one_file ''email_threads.json'' (Document [(''t1'', [rec_A])])))
     ''email_threads.json.tmp'' = Some (Malformed ''{ t1: [ {'')"
  by (simp add: json_save_threads_def save_cleanup_def temp_file_def size_breaks_def
      dump_breaks_def io_ok_def one_file_def fun_upd_twist)

text \<open>
  Claim C7, as amended. When the file of the JSON provider holds text that
  \<^verbatim>\<open>json.load\<close> rejects with \<^verbatim>\<open>JSONDecodeError\<close> (and reading and renaming work),
  \<^verbatim>\<open>load_threads\<close> returns the empty dict, the file is no longer at its path, and the
  file named by the path, \<^verbatim>\<open>.backup_\<close> and the clock's seconds holds exactly the
  rejected text; no other file changes. When the loading fails with another exception, or
  the renaming fails, \<^verbatim>\<open>load_threads\<close> returns the empty dict and changes no file.
\<close>

theorem json_load_threads_corrupt:
  "(fs p = Some (Malformed s) \<and> \<not> getsize_fails pl \<and> \<not> read_fails pl \<and> \<not> rename_fails pl \<longrightarrow>
      fst (json_load_threads pl now p fs) = [] \<and>
      snd (json_load_threads pl now p fs) p = None \<and>
      snd (json_load_threads pl now p fs) (p @ ''.backup_'' @ str_int now) = Some (Malformed s) \<and>
      (\<forall>q. q \<noteq> p \<and> q \<noteq> p @ ''.backup_'' @ str_int now \<longrightarrow>
         snd (json_load_threads pl now p fs) q = fs q)) \<and>
   (fs p = Some (Unreadable s) \<or>
    fs p = Some (Malformed s) \<and> (getsize_fails pl \<or> read_fails pl \<or> rename_fails pl) \<longrightarrow>
      json_load_threads pl now p fs = ([], fs))"
  by (auto simp: json_load_threads_def backup_name_def)

theorem json_load_threads_corrupt_witness:
  "one_file ''email_threads.json'' (Malformed ''{not json'') ''email_threads.json''
     = Some (Malformed ''{not json'') \<and>
   \<not> getsize_fails io_ok \<and> \<not> read_fails io_ok \<and> \<not> rename_fails io_ok \<and>
   fst (json_load_threads io_ok 1700000321 ''email_threads.json''
          (one_file ''email_threads.json'' (Malformed ''{not json''))) = [] \<and>
   snd (json_load_threads io_ok 1700000321 ''email_threads.json''
          (one_file ''email_threads.json'' (Malformed ''{not json''))) ''email_threads.json'' = None \<and>
   snd (json_load_threads io_ok 1700000321 ''email_threads.json''
          (one_file ''email_threads.json'' (Malformed ''{not json'')))
     ''email_threads.json.backup_1700000321'' = Some (Malformed ''{not json'') \<and>
   one_file ''email_threads.json'' (Unreadable ''[1, 2]'') ''email_threads.json''
     = Some (Unreadable ''[1, 2]'') \<and>
   json_load_threads io_ok 1700000321 ''email_threads.json''
          (one_file ''email_threads.json'' (Unreadable ''[1, 2]''))
     = ([], one_file ''email_threads.json'' (Unreadable ''[1, 2]''))"
proof -
  have n: "str_int 1700000321 = ''1700000321''"
    by (simp add: str_int_def str_nat.simps)
  have f: "one_file ''email_threads.json'' (Malformed ''{not json'') ''email_threads.json''
     = Some (Malformed ''{not json'')"
    "one_file ''email_threads.json'' (Unreadable ''[1, 2]'') ''email_threads.json''
     = Some (Unreadable ''[1, 2]'')"
    by (simp_all add: one_file_def)
  have o: "\<not> getsize_fails io_ok" "\<not> read_fails io_ok" "\<not> rename_fails io_ok"
    by (simp_all add: io_ok_def)
  from json_load_threads_corrupt
         [where fs = "one_file ''email_threads.json'' (Malformed ''{not json'')"
            and p = "''email_threads.json''" and s = "''{not json''" and pl = io_ok
            and now = 1700000321]
       json_load_threads_corrupt
         [where fs = "one_file ''email_threads.json'' (Unreadable ''[1, 2]'')"
            and p = "''email_threads.json''" and s = "''[1, 2]''" and pl = io_ok
            and now = 1700000321]
       n f o
  show ?thesis
    by simp
qed

text \<open>
  The claim as stated fails on content that cannot be parsed for another reason than
  the JSON syntax: a file holding the JSON list \<^verbatim>\<open>[1, 2]\<close> (or bytes that are not
  UTF-8) makes the loading raise an exception that is not \<^verbatim>\<open>JSONDecodeError\<close>;
  \<^verbatim>\<open>load_threads\<close> returns the empty dict, the file stays at its path and there is no
  backup file. The same happens to text that is not JSON when \<^verbatim>\<open>os.rename\<close> fails.
\<close>

theorem json_load_threads_no_backup_counterexample:
  "json_load_threads io_ok 1700000321 ''email_threads.json''
          (one_file ''email_threads.json'' (Unreadable ''[1, 2]''))
     = ([], one_file ''email_threads.json'' (Unreadable ''[1, 2]'')) \<and>
   one_file ''email_threads.json'' (Unreadable ''[1, 2]'') ''email_threads.json''
     = Some (Unreadable ''[1, 2]'') \<and>
   one_file ''email_threads.json'' (Unreadable ''[1, 2]'') ''email_threads.json.backup_1700000321''
     = None \<and>
   backup_name ''email_threads.json'' 1700000321 = ''email_threads.json.backup_1700000321'' \<and>
   json_load_threads (io_ok\<lparr>rename_fails := True\<rparr>) 1700000321 ''email_threads.json''
          (one_file ''email_threads.json'' (Malformed ''{not json''))
     = ([], one_file ''email_threads.json'' (Malformed ''{not json''))"
  by (simp add: json_load_threads_def io_ok_def one_file_def backup_name_def str_int_def
      str_nat.simps)

text \<open>
  Claim C10, as amended. When the configured provider type is a string (or is not set)
  and its lowercase form is none of \<^verbatim>\<open>"json"\<close>, \<^verbatim>\<open>"sqlite"\<close> and \<^verbatim>\<open>"mock"\<close>, the
  factory raises nothing and returns the JSON provider on the configured threads file.
  This holds whatever function \<^verbatim>\<open>str.lower\<close> is.
\<close>

theorem get_storage_provider_fallback:
  assumes "dict_get (storage_provider cfg) (YStr ''json'') = YStr s"
    and "str_lower s \<notin> {''json'', ''sqlite'', ''mock''}"
  shows "get_storage_provider str_lower cfg db_init_ok
           = Inr (JSONStorageProvider (threads_file cfg))"
  using assms by (simp add: get_storage_provider_def Let_def)

theorem get_storage_provider_fallback_witness:
  "dict_get (storage_provider
      \<lparr>storage_provider = Some (YStr ''Redis''), threads_file = ''email_threads.json'',
       sqlite_path = ''email_threads.db''\<rparr>) (YStr ''json'') = YStr ''Redis'' \<and>
   ascii_lower ''Redis'' = ''redis'' \<and>
   ascii_lower ''Redis'' \<notin> {''json'', ''sqlite'', ''mock''} \<and>
   get_storage_provider ascii_lower
      \<lparr>storage_provider = Some (YStr ''Redis''), threads_file = ''email_threads.json'',
       sqlite_path = ''email_threads.db''\<rparr> False
     = Inr (JSONStorageProvider ''email_threads.json'')"
proof -
  have g: "dict_get (storage_provider
      \<lparr>storage_provider = Some (YStr ''Redis''), threads_file = ''email_threads.json'',
       sqlite_path = ''email_threads.db''\<rparr>) (YStr ''json'') = YStr ''Redis''"
    by (simp add: dict_get_def)
  have l: "ascii_lower ''Redis'' = ''redis''"
    by (simp add: ascii_lower_def lower_char_def)
  have h: "ascii_lower ''Redis'' \<notin> {''json'', ''sqlite'', ''mock''}"
    by (simp add: l)
  from get_storage_provider_fallback [of _ "''Redis''" ascii_lower False, OF g h] g l h
  show ?thesis
    by simp
qed

text \<open>
  The claim as stated fails when the configured value is not a string: with
  \<^verbatim>\<open>provider: 5\<close> in the YAML file the value is none of the three names, and the factory
  raises \<^verbatim>\<open>AttributeError\<close> in place of falling back to the JSON provider; likewise
  for \<^verbatim>\<open>provider:\<close> with no value, which is \<^verbatim>\<open>null\<close>.
\<close>

theorem get_storage_provider_not_string_counterexample:
  "get_storage_provider ascii_lower
      \<lparr>storage_provider = Some (YInt 5), threads_file = ''email_threads.json'',
       sqlite_path = ''email_threads.db''\<rparr> True
     = Inl AttributeError \<and>
   get_storage_provider ascii_lower
      \<lparr>storage_provider = Some YNull, threads_file = ''email_threads.json'',
       sqlite_path = ''email_threads.db''\<rparr> True
     = Inl AttributeError \<and>
   Inl AttributeError \<noteq> (Inr (JSONStorageProvider ''email_threads.json'') :: init_error + provider)"
  by (simp add: get_storage_provider_def dict_get_def)

subsection \<open>The transcript\<close>

lemma foldl_format_step:
  "fst (foldl format_step (ls, b, u) h) =
     ls @ concat (map (\<lambda>e. [newline @ ''From: '' @ sender_label e,
            ''Subject: '' @ dict_get (subject e) ''No subject'',
            ''Message: '' @ dict_get (body e) ''No content'',
            replicate 40 (CHR ''-'')]) h)"
  by (induction h arbitrary: ls b u) (simp_all add: format_step_def)

text \<open>
  Claim C8, as amended. For a non-empty history \<^verbatim>\<open>format_thread_context\<close> returns the
  lines joined by newlines: a heading line, then for each record in stored order a block
  of four lines (\<^verbatim>\<open>From:\<close> with the label \<^verbatim>\<open>Bot\<close> when the reply flag is set and
  otherwise the record's sender, or \<^verbatim>\<open>Unknown\<close> without one; \<^verbatim>\<open>Subject:\<close>;
  \<^verbatim>\<open>Message:\<close>; a rule of 40 dashes), then the instruction line. For the empty history
  it returns the empty string.
\<close>

theorem format_thread_context_blocks:
  "format_thread_context h =
     (if h = [] then []
      else py_join newline
        ([''Here is the conversation history:''] @
         concat (map (\<lambda>e.
           [newline @ ''From: '' @
              (if dict_get (is_bot_reply e) False then ''Bot'' else dict_get (sender e) ''Unknown''),
            ''Subject: '' @ dict_get (subject e) ''No subject'',
            ''Message: '' @ dict_get (body e) ''No content'',
            replicate 40 (CHR ''-'')]) h) @
         [newline @ ''Now please reply to the latest email below:'']))"
  using foldl_format_step [of "[''Here is the conversation history:'']" 0 0 h]
  by (auto simp: format_thread_context_def sender_label_def split: prod.splits)

text \<open>
  The claim as stated fails: for a history of one record whose reply flag is set, the
  transcript has the label \<^verbatim>\<open>Bot\<close>, and the word \<^verbatim>\<open>system\<close> occurs nowhere in it.
\<close>

theorem format_thread_context_label_counterexample:
  "dict_get (is_bot_reply rec_B) False \<and>
   py_in ''From: Bot'' (format_thread_context [rec_B]) \<and>
   \<not> py_in ''system'' (format_thread_context [rec_B])"
  by (simp add: format_thread_context_def format_step_def sender_label_def rec_B_def mk_email_def
      dict_get_def newline_def eval_nat_numeral)


subsection \<open>The empty thread id\<close>

text \<open>
  Claim C6, as amended. With the JSON or the SQLite provider active, a call of the public
  \<^verbatim>\<open>add_email_to_thread\<close> or \<^verbatim>\<open>get_thread_history\<close> with the empty thread id is
  rejected by the provider's first test: the result is \<open>False\<close>, respectively the empty
  list, and the files and the table are as before, whatever operation would have failed
  (none is tried).
\<close>

theorem empty_thread_id_rejected:
  "add_email_to_thread ev [] sender' subject' body' uid' is_bot (JSONStore p fs)
     = (False, JSONStore p fs) \<and>
   add_email_to_thread ev [] sender' subject' body' uid' is_bot (SQLiteStore db)
     = (False, SQLiteStore db) \<and>
   get_thread_history ev [] (JSONStore p fs) = ([], JSONStore p fs) \<and>
   get_thread_history ev [] (SQLiteStore db) = ([], SQLiteStore db)"
  by (simp add: add_email_to_thread_def provider_add_email_to_thread_def get_thread_history_def
      json_add_email_to_thread_def sqlite_add_email_to_thread_def json_get_thread_history_def
      sqlite_get_thread_history_def)

text \<open>
  The claim as stated fails with the mock provider active: the public function hands the
  empty thread id to the provider, which stores the record under it and returns \<open>True\<close>;
  the history of the empty thread id is then not empty.
\<close>

theorem empty_thread_id_mock_counterexample:
  "add_email_to_thread (env_ok 5) [] ''ann@example.com'' ''Question'' ''A'' None False
       (MockStore empty_mock)
     = (True, MockStore \<lparr>mock_threads =
          [([], [mk_email ''ann@example.com'' ''Question'' ''A'' ''2024-03-01T09:20:00'' False])],
          operation_count = 1\<rparr>) \<and>
   fst (get_thread_history (env_ok 5) []
          (snd (add_email_to_thread (env_ok 5) [] ''ann@example.com'' ''Question'' ''A'' None False
             (MockStore empty_mock))))
     = [mk_email ''ann@example.com'' ''Question'' ''A'' ''2024-03-01T09:20:00'' False]"
  by (simp add: add_email_to_thread_def provider_add_email_to_thread_def get_thread_history_def
      mock_add_email_to_thread_def mock_get_thread_history_def env_ok_def empty_mock_def
      mk_email_def threads_get_def Let_def)


subsection \<open>Reading one thread\<close>

lemma threads_get_missing: "thread_id \<notin> fst ` set t \<Longrightarrow> threads_get t thread_id = []"
  by (simp add: threads_get_def map_of_eq_None_iff [THEN iffD2])

lemma email_timestamp_of_row [simp]: "email_timestamp (email_of_row r) = row_timestamp r"
  by (simp add: email_timestamp_def email_of_row_def dict_get_def)

text \<open>
  Claim C2, as amended. \<^verbatim>\<open>get_thread_history\<close> returns the empty list for a thread
  that is not stored. The JSON provider (the file read without failure) and the mock
  provider return the whole stored list of the thread, in stored order, whatever its
  length. The SQLite provider returns the rows of the thread in ascending timestamp
  order, all of them when the thread has at most \<open>H\<close> rows; so a thread that holds at
  most \<open>H\<close> records gives at most \<open>H\<close> records.
\<close>

theorem get_thread_history_stored:
  "(thread_id \<noteq> [] \<and> fs p = Some (Document t) \<and> \<not> getsize_fails pl \<and> \<not> read_fails pl \<longrightarrow>
      json_get_thread_history pl now p thread_id fs = (threads_get t thread_id, fs)) \<and>
   (fs p = None \<longrightarrow> json_get_thread_history pl now p thread_id fs = ([], fs)) \<and>
   fst (mock_get_thread_history thread_id m) = threads_get (mock_threads m) thread_id \<and>
   (thread_id \<notin> fst ` set t \<longrightarrow> threads_get t thread_id = []) \<and>
   (thread_id \<notin> row_thread_id ` set (rows db) \<longrightarrow>
      sqlite_get_thread_history H ok thread_id db = []) \<and>
   (thread_id \<noteq> [] \<and> int (length (thread_rows thread_id (rows db))) \<le> H \<longrightarrow>
      sqlite_get_thread_history H True thread_id db
        = map email_of_row (order_by_timestamp (thread_rows thread_id (rows db))) \<and>
      sorted (map email_timestamp (sqlite_get_thread_history H True thread_id db)) \<and>
      int (length (sqlite_get_thread_history H True thread_id db)) \<le> H)"
proof -
  have a: "thread_id \<notin> row_thread_id ` set (rows db) \<Longrightarrow> thread_rows thread_id (rows db) = []"
    by (auto simp: thread_rows_def filter_empty_conv)
  have b: "map email_timestamp (map email_of_row rs) = map row_timestamp rs" for rs
    by (simp add: comp_def)
  show ?thesis
    by (auto simp: json_get_thread_history_def json_load_threads_def mock_get_thread_history_def
        threads_get_missing sqlite_get_thread_history_def a order_by_timestamp_def sql_limit_def b
        simp del: map_map)
qed

theorem get_thread_history_stored_witness:
  "''t1'' \<noteq> [] \<and>
   one_file ''email_threads.json'' (Document dict_AB) ''email_threads.json'' = Some (Document dict_AB) \<and>
   \<not> getsize_fails io_ok \<and> \<not> read_fails io_ok \<and>
   json_get_thread_history io_ok 1709284800 ''email_threads.json'' ''t1''
       (one_file ''email_threads.json'' (Document dict_AB))
     = ([rec_A, rec_B], one_file ''email_threads.json'' (Document dict_AB)) \<and>
   fst (mock_get_thread_history ''t1'' \<lparr>mock_threads = dict_AB, operation_count = 0\<rparr>)
     = [rec_A, rec_B] \<and>
   int (length (thread_rows ''t1'' (rows db_AB))) \<le> 5 \<and>
   sqlite_get_thread_history 5 True ''t1'' db_AB = [rec_A, rec_B] \<and>
   Map.empty ''email_threads.json'' = (None :: content option) \<and>
   json_get_thread_history io_ok 1709284800 ''email_threads.json'' ''t9'' Map.empty
     = ([], Map.empty) \<and>
   ''t9'' \<notin> fst ` set dict_AB \<and> threads_get dict_AB ''t9'' = [] \<and>
   ''t9'' \<notin> row_thread_id ` set (rows db_AB) \<and>
   sqlite_get_thread_history 5 True ''t9'' db_AB = []"
  using get_thread_history_stored
          [of "''t1''" "one_file ''email_threads.json'' (Document dict_AB)" "''email_threads.json''"
              dict_AB io_ok 1709284800 "\<lparr>mock_threads = dict_AB, operation_count = 0\<rparr>" db_AB 5 True]
        get_thread_history_stored
          [of "''t9''" Map.empty "''email_threads.json''"
              dict_AB io_ok 1709284800 "\<lparr>mock_threads = dict_AB, operation_count = 0\<rparr>" db_AB 5 True]
  by (simp add: one_file_def io_ok_def dict_AB_def db_AB_def threads_get_def thread_rows_def
      row_of_def email_of_row_def order_by_timestamp_def rec_A_def rec_B_def mk_email_def
      dict_get_def less_char_def less_eq_char_def)

text \<open>
  The claim as stated fails on a state that \<^verbatim>\<open>save_threads\<close> produces, with \<open>H = 2\<close>
  and three records saved for a thread: the JSON provider returns all three, and the
  SQLite provider returns the two oldest, not the two most recent.
\<close>

theorem get_thread_history_over_cap_counterexample:
  "fst (json_get_thread_history io_ok 1709284800 ''email_threads.json'' ''t1''
          (snd (json_save_threads io_ok ''email_threads.json''
                  [(''t1'', [rec_A, rec_B, rec_C])] Map.empty)))
     = [rec_A, rec_B, rec_C] \<and>
   \<not> int (length [rec_A, rec_B, rec_C]) \<le> 2 \<and>
   sqlite_get_thread_history 2 True ''t1''
     (snd (sqlite_save_threads True [(''t1'', [rec_A, rec_B, rec_C])] empty_db))
     = [rec_A, rec_B] \<and>
   [rec_A, rec_B] \<noteq> [rec_B, rec_C]"
  by (simp add: json_get_thread_history_def json_load_threads_def json_save_threads_def io_ok_def
      temp_file_def threads_get_def sqlite_get_thread_history_def sqlite_save_threads_def
      uid_fits_def empty_db_def sql_insert_def row_of_def email_of_row_def thread_rows_def
      order_by_timestamp_def sql_limit_def rec_A_def rec_B_def rec_C_def mk_email_def
      dict_get_def less_char_def less_eq_char_def)


subsection \<open>The cap on a thread's history\<close>


lemma threads_get_update:
  "threads_get (AList.update k v t) k' = (if k' = k then v else threads_get t k')"
  by (simp add: threads_get_def update_conv')

lemma length_last_n: "0 \<le> H \<Longrightarrow> int (length (last_n H xs)) \<le> H"
  by (auto simp: last_n_def)

lemma add_dict_get:
  fixes t :: threads and tid :: string and e :: email and H :: int
  defines "t1 \<equiv> (if tid \<notin> fst ` set t then AList.update tid [] t else t)"
  defines "t2 \<equiv> AList.update tid (threads_get t1 tid @ [e]) t1"
  defines "t3 \<equiv> (if H < int (length (threads_get t2 tid))
                  then AList.update tid (py_last_slice H (threads_get t2 tid)) t2 else t2)"
  shows "threads_get t3 k =
           (if k = tid
            then (if H < int (length (threads_get t tid @ [e]))
                  then py_last_slice H (threads_get t tid @ [e]) else threads_get t tid @ [e])
            else threads_get t k)"
proof -
  have 1: "threads_get t1 k' = threads_get t k'" for k'
    unfolding t1_def by (simp add: threads_get_update threads_get_missing del: AList.update.simps)
  have 2: "threads_get t2 k' = (if k' = tid then threads_get t tid @ [e] else threads_get t k')" for k'
    unfolding t2_def by (simp add: threads_get_update 1 del: AList.update.simps)
  show ?thesis
    unfolding t3_def by (simp add: threads_get_update 2 del: AList.update.simps)
qed

lemma json_add_step:
  assumes "thread_id \<noteq> []" and "fs p = None \<and> t = [] \<or> fs p = Some (Document t)"
  shows "\<exists>t'. snd (json_add_email_to_thread H io_ok now p thread_id e fs) p = Some (Document t') \<and>
          fst (json_add_email_to_thread H io_ok now p thread_id e fs) = True \<and>
          (\<forall>k. threads_get t' k =
             (if k = thread_id
              then (if H < int (length (threads_get t k @ [e]))
                    then py_last_slice H (threads_get t k @ [e]) else threads_get t k @ [e])
              else threads_get t k))"
proof -
  have l: "json_load_threads io_ok now p fs = (t, fs)"
    using assms(2) by (auto simp: json_load_threads_def io_ok_def)
  have s: "json_save_threads io_ok p t' fs = (True, fs(p \<mapsto> Document t', temp_file p := None))" for t'
    by (simp add: json_save_threads_def io_ok_def Let_def temp_file_neq fun_upd_twist)
  define t1 where "t1 = (if thread_id \<notin> fst ` set t then AList.update thread_id [] t else t)"
  define t2 where "t2 = AList.update thread_id (threads_get t1 thread_id @ [e]) t1"
  define t3 where "t3 = (if H < int (length (threads_get t2 thread_id))
                  then AList.update thread_id (py_last_slice H (threads_get t2 thread_id)) t2 else t2)"
  have eq: "json_add_email_to_thread H io_ok now p thread_id e fs
              = (True, fs(p \<mapsto> Document t3, temp_file p := None))"
    using assms(1)
    by (simp add: json_add_email_to_thread_def l s Let_def t1_def t2_def t3_def
        del: AList.update.simps)
  have "threads_get t3 k =
             (if k = thread_id
              then (if H < int (length (threads_get t k @ [e]))
                    then py_last_slice H (threads_get t k @ [e]) else threads_get t k @ [e])
              else threads_get t k)" for k
    unfolding t3_def t2_def t1_def by (simp add: add_dict_get del: AList.update.simps)
  then show ?thesis
    by (intro exI [of _ t3]) (simp add: eq temp_file_neq)
qed

lemma mock_add_step:
  "threads_get (mock_threads (snd (mock_add_email_to_thread H thread_id e m))) k =
             (if k = thread_id
              then (if H < int (length (threads_get (mock_threads m) k @ [e]))
                    then py_last_slice H (threads_get (mock_threads m) k @ [e])
                    else threads_get (mock_threads m) k @ [e])
              else threads_get (mock_threads m) k)"
  unfolding mock_add_email_to_thread_def Let_def
  by (simp add: add_dict_get del: AList.update.simps)


lemma last_n_last_n_snoc:
  assumes "1 \<le> H"
  shows "last_n H (last_n H xs @ [e]) = last_n H (xs @ [e])"
proof (cases "length xs \<le> nat H")
  case True
  then show ?thesis by (simp add: last_n_def)
next
  case False
  with assms have "Suc (length xs) - nat H = Suc (length xs - nat H)"
    and "Suc (nat H) - nat H = Suc 0" and "length xs - (length xs - nat H) = nat H"
    by linarith+
  with False show ?thesis by (simp add: last_n_def)
qed

lemma trim_last_n_snoc:
  assumes "1 \<le> H"
  shows "H < 1 + int (length (last_n H xs)) \<Longrightarrow>
           py_last_slice H (last_n H xs @ [e]) = last_n H (xs @ [e])"
    and "\<not> H < 1 + int (length (last_n H xs)) \<Longrightarrow>
           last_n H xs @ [e] = last_n H (xs @ [e])"
proof -
  have p: "py_last_slice H ys = last_n H ys" for ys :: "'a list"
    using assms by (simp add: py_last_slice_def last_n_def)
  show "H < 1 + int (length (last_n H xs)) \<Longrightarrow>
           py_last_slice H (last_n H xs @ [e]) = last_n H (xs @ [e])"
    by (simp add: p last_n_last_n_snoc [OF assms])
  assume "\<not> H < 1 + int (length (last_n H xs))"
  then have "last_n H (last_n H xs @ [e]) = last_n H xs @ [e]"
    using assms by (simp add: last_n_def [of H "_ @ _"])
  then show "last_n H xs @ [e] = last_n H (xs @ [e])"
    by (simp add: last_n_last_n_snoc [OF assms])
qed

lemma appended_to_snoc:
  "appended_to k (ops @ [op]) = (if fst op = k then appended_to k ops @ [snd op] else appended_to k ops)"
  by (simp add: appended_to_def)

lemma json_append_all_inv:
  assumes "1 \<le> H" and "fs p = None"
  shows "\<exists>t. (json_append_all H now p ops fs p = None \<and> t = [] \<or>
              json_append_all H now p ops fs p = Some (Document t)) \<and>
             (\<forall>k. k \<noteq> [] \<longrightarrow> threads_get t k = last_n H (appended_to k ops))"
proof (induction ops rule: rev_induct)
  case Nil
  then show ?case
    using assms(2) by (simp add: json_append_all_def appended_to_def last_n_def threads_get_def)
next
  case (snoc op ops)
  then obtain t where t: "json_append_all H now p ops fs p = None \<and> t = [] \<or>
              json_append_all H now p ops fs p = Some (Document t)"
    and g: "\<And>k. k \<noteq> [] \<Longrightarrow> threads_get t k = last_n H (appended_to k ops)"
    by blast
  have f: "json_append_all H now p (ops @ [op]) fs =
             snd (json_add_email_to_thread H io_ok now p (fst op) (snd op)
                    (json_append_all H now p ops fs))"
    by (simp add: json_append_all_def)
  show ?case
  proof (cases "fst op = []")
    case True
    then have "json_append_all H now p (ops @ [op]) fs = json_append_all H now p ops fs"
      by (simp add: f json_add_email_to_thread_def)
    with t g True show ?thesis
      by (intro exI [of _ t]) (auto simp: appended_to_snoc)
  next
    case False
    from json_add_step [where fs = "json_append_all H now p ops fs" and p = p and t = t
        and thread_id = "fst op" and H = H and now = now and e = "snd op", OF False t]
    obtain t' where
      t': "json_append_all H now p (ops @ [op]) fs p = Some (Document t')"
      and g': "\<And>k. threads_get t' k =
             (if k = fst op
              then (if H < int (length (threads_get t k @ [snd op]))
                    then py_last_slice H (threads_get t k @ [snd op]) else threads_get t k @ [snd op])
              else threads_get t k)"
      unfolding f by blast
    have "threads_get t' k = last_n H (appended_to k (ops @ [op]))" if "k \<noteq> []" for k
      using that False g [of k] g [of "fst op"]
      by (simp add: g' appended_to_snoc trim_last_n_snoc [OF assms(1)])
    with t' show ?thesis by blast
  qed
qed

lemma json_append_all_history:
  assumes "1 \<le> H" and "fs p = None" and "thread_id \<noteq> []"
  shows "fst (json_get_thread_history io_ok now p thread_id (json_append_all H now' p ops fs))
           = last_n H (appended_to thread_id ops)"
proof -
  from json_append_all_inv [where fs = fs and p = p and H = H and now = now' and ops = ops,
      OF assms(1,2)]
  obtain t where
    t: "json_append_all H now' p ops fs p = None \<and> t = [] \<or>
              json_append_all H now' p ops fs p = Some (Document t)"
    and g: "threads_get t thread_id = last_n H (appended_to thread_id ops)"
    using assms(3) by blast
  have "json_load_threads io_ok now p (json_append_all H now' p ops fs)
          = (t, json_append_all H now' p ops fs)"
    using t by (auto simp: json_load_threads_def io_ok_def)
  then show ?thesis
    using assms(3) g by (simp add: json_get_thread_history_def)
qed

lemma mock_append_all_inv:
  assumes "1 \<le> H"
  shows "threads_get (mock_threads (mock_append_all H ops empty_mock)) k
           = last_n H (appended_to k ops)"
proof (induction ops arbitrary: k rule: rev_induct)
  case Nil
  then show ?case
    by (simp add: mock_append_all_def empty_mock_def appended_to_def last_n_def threads_get_def)
next
  case (snoc op ops)
  have f: "mock_append_all H (ops @ [op]) empty_mock =
             snd (mock_add_email_to_thread H (fst op) (snd op) (mock_append_all H ops empty_mock))"
    by (simp add: mock_append_all_def)
  show ?case
    by (simp add: f mock_add_step snoc appended_to_snoc trim_last_n_snoc [OF assms(1)])
qed



lemma sql_form_row [simp]: "email_of_row (row_of i thread_id e) = sql_form e"
  by (simp add: email_of_row_def row_of_def sql_form_def)

lemma email_timestamp_sql_form [simp]: "email_timestamp (sql_form e) = email_timestamp e"
  by (simp add: email_timestamp_def sql_form_def dict_get_def)

lemma row_timestamp_row_of [simp]: "row_timestamp (row_of i thread_id e) = email_timestamp e"
  by (simp add: row_of_def email_timestamp_def)

lemma row_thread_id_row_of [simp]: "row_thread_id (row_of i thread_id e) = thread_id"
  by (simp add: row_of_def)

lemma row_id_row_of [simp]: "row_id (row_of i thread_id e) = i"
  by (simp add: row_of_def)

lemma filter_drop_by_key:
  "distinct (map f xs) \<Longrightarrow> filter (\<lambda>x. f x \<notin> f ` set (take n xs)) xs = drop n xs"
proof (induction xs arbitrary: n)
  case Nil
  then show ?case by simp
next
  case (Cons x xs)
  show ?case
  proof (cases n)
    case 0
    then show ?thesis by simp
  next
    case (Suc m)
    from Cons.prems have d: "distinct (map f xs)" and nx: "f x \<notin> f ` set xs" by auto
    have "filter (\<lambda>y. f y \<notin> f ` set (take n (x # xs))) xs
            = filter (\<lambda>y. f y \<notin> f ` set (take m xs)) xs"
    proof (intro filter_cong refl)
      fix y assume y: "y \<in> set xs"
      have "f y \<noteq> f x"
      proof
        assume "f y = f x"
        with y have "f x \<in> f ` set xs" by (metis imageI)
        with nx show False by simp
      qed
      with Suc show "(f y \<notin> f ` set (take n (x # xs))) = (f y \<notin> f ` set (take m xs))"
        by simp
    qed
    with Cons.IH [OF d, of m] Suc nx show ?thesis by simp
  qed
qed

text \<open>What an insert into any thread keeps.\<close>

lemma sqlite_add_frame:
  assumes "distinct (map row_id (rows db))" and "\<forall>r\<in>set (rows db). row_id r < next_id db"
  shows "distinct (map row_id (rows (snd (sqlite_add_email_to_thread H ok thread_id e db))))"
    and "\<forall>r\<in>set (rows (snd (sqlite_add_email_to_thread H ok thread_id e db))).
           row_id r < next_id (snd (sqlite_add_email_to_thread H ok thread_id e db))"
    and "k \<noteq> thread_id \<Longrightarrow>
           thread_rows k (rows (snd (sqlite_add_email_to_thread H ok thread_id e db)))
             = thread_rows k (rows db)"
proof -
  have i: "distinct (map row_id (rows (sql_insert thread_id e db)))"
    using assms by (auto simp: sql_insert_def)
  have b: "\<forall>r\<in>set (rows (sql_insert thread_id e db)). row_id r < next_id (sql_insert thread_id e db)"
    using assms by (auto simp: sql_insert_def less_Suc_eq)
  show "distinct (map row_id (rows (snd (sqlite_add_email_to_thread H ok thread_id e db))))"
    using i assms(1) by (simp add: sqlite_add_email_to_thread_def Let_def distinct_map_filter)
  show "\<forall>r\<in>set (rows (snd (sqlite_add_email_to_thread H ok thread_id e db))).
           row_id r < next_id (snd (sqlite_add_email_to_thread H ok thread_id e db))"
    using b assms(2) by (simp add: sqlite_add_email_to_thread_def Let_def)
  show "thread_rows k (rows (snd (sqlite_add_email_to_thread H ok thread_id e db)))
             = thread_rows k (rows db)" if "k \<noteq> thread_id"
    using that
    by (auto simp: sqlite_add_email_to_thread_def Let_def thread_rows_def sql_insert_def
        intro: filter_cong)
qed

text \<open>An insert into a thread whose rows, with the new one, are in timestamp order.\<close>

lemma sqlite_add_step:
  assumes "thread_id \<noteq> []" and "0 \<le> H"
    and "distinct (map row_id (rows db))" and "\<forall>r\<in>set (rows db). row_id r < next_id db"
    and "sorted (map row_timestamp (thread_rows thread_id (rows db)) @ [email_timestamp e])"
    and "uid_fits e"
  shows "thread_rows thread_id (rows (snd (sqlite_add_email_to_thread H True thread_id e db)))
           = last_n H (thread_rows thread_id (rows db) @ [row_of (next_id db) thread_id e])"
proof -
  define new where "new = row_of (next_id db) thread_id e"
  define T where "T = thread_rows thread_id (rows db) @ [new]"
  have r1: "rows (sql_insert thread_id e db) = rows db @ [new]"
    by (simp add: sql_insert_def new_def)
  have t1: "thread_rows thread_id (rows db @ [new]) = T"
    by (simp add: T_def thread_rows_def new_def)
  have so: "order_by_timestamp T = T"
    unfolding order_by_timestamp_def
    using assms(5) by (intro sort_key_id_if_sorted) (simp add: T_def new_def)
  have dT: "distinct (map row_id T)"
    unfolding t1 [symmetric] thread_rows_def
    using assms(3,4) by (intro distinct_map_filter) (auto simp: new_def)
  show ?thesis
  proof (cases "H < int (length T)")
    case False
    then have "last_n H T = T" by (simp add: last_n_def)
    with False show ?thesis
      using assms(1,6)
      by (simp add: sqlite_add_email_to_thread_def Let_def r1 t1 T_def [symmetric] new_def [symmetric])
  next
    case True
    define n where "n = nat (int (length T) - H)"
    have n: "n = length T - nat H" using assms(2) by (simp add: n_def nat_diff_distrib')
    have "rows (snd (sqlite_add_email_to_thread H True thread_id e db))
            = filter (\<lambda>r. \<not> (row_thread_id r = thread_id \<and> row_id r \<in> row_id ` set (take n T)))
                (rows db @ [new])"
      using assms(1,6) True
      by (simp add: sqlite_add_email_to_thread_def Let_def r1 t1 so sql_limit_def n_def)
    then have "thread_rows thread_id (rows (snd (sqlite_add_email_to_thread H True thread_id e db)))
            = filter (\<lambda>r. row_id r \<notin> row_id ` set (take n T)) T"
      unfolding t1 [symmetric] thread_rows_def by (auto intro: filter_cong)
    also have "\<dots> = drop n T" by (rule filter_drop_by_key [OF dT])
    finally show ?thesis
      by (simp add: last_n_def n T_def new_def)
  qed
qed



lemma last_n_map: "last_n H (map f xs) = map f (last_n H xs)"
  by (simp add: last_n_def drop_map)

lemma strict_sorted_last_n_snoc:
  assumes "sorted_wrt (<) (map email_timestamp (A @ [e]))"
  shows "sorted (map email_timestamp (last_n H A) @ [email_timestamp e])"
proof -
  have "sorted_wrt (<) (drop (length A - nat H) (map email_timestamp (A @ [e])))"
    using assms by (rule sorted_wrt_drop)
  then have "sorted_wrt (<) (map email_timestamp (last_n H A) @ [email_timestamp e])"
    by (simp add: last_n_def drop_map)
  then show ?thesis by (rule strict_sorted_imp_sorted)
qed

lemma sqlite_append_all_inv:
  assumes "1 \<le> H" and "thread_id \<noteq> []"
    and "sorted_wrt (<) (map email_timestamp (appended_to thread_id ops))"
    and "list_all uid_fits (appended_to thread_id ops)"
  shows "distinct (map row_id (rows (sqlite_append_all H ops empty_db))) \<and>
         (\<forall>r\<in>set (rows (sqlite_append_all H ops empty_db)).
            row_id r < next_id (sqlite_append_all H ops empty_db)) \<and>
         map email_of_row (thread_rows thread_id (rows (sqlite_append_all H ops empty_db)))
           = map sql_form (last_n H (appended_to thread_id ops))"
  using assms(3,4)
proof (induction ops rule: rev_induct)
  case Nil
  then show ?case
    by (simp add: sqlite_append_all_def empty_db_def thread_rows_def appended_to_def last_n_def)
next
  case (snoc op ops)
  define db where "db = sqlite_append_all H ops empty_db"
  have f: "sqlite_append_all H (ops @ [op]) empty_db =
             snd (sqlite_add_email_to_thread H True (fst op) (snd op) db)"
    by (simp add: sqlite_append_all_def db_def)
  have s: "sorted_wrt (<) (map email_timestamp (appended_to thread_id ops))"
    using snoc.prems by (auto simp: appended_to_snoc sorted_wrt_append split: if_splits)
  have u: "list_all uid_fits (appended_to thread_id ops)"
    using snoc.prems by (auto simp: appended_to_snoc split: if_splits)
  from snoc.IH [OF s u] have d: "distinct (map row_id (rows db))"
    and b: "\<forall>r\<in>set (rows db). row_id r < next_id db"
    and h: "map email_of_row (thread_rows thread_id (rows db))
              = map sql_form (last_n H (appended_to thread_id ops))"
    by (simp_all add: db_def)
  note fr = sqlite_add_frame [where H = H and ok = True and thread_id = "fst op"
      and e = "snd op", OF d b]
  show ?case
  proof (cases "fst op = thread_id")
    case False
    with fr h show ?thesis
      unfolding f by (simp add: appended_to_snoc)
  next
    case True
    have "map row_timestamp (thread_rows thread_id (rows db))
            = map email_timestamp (map email_of_row (thread_rows thread_id (rows db)))"
      by simp
    also have "\<dots> = map email_timestamp (last_n H (appended_to thread_id ops))"
      unfolding h by simp
    finally have "sorted (map row_timestamp (thread_rows thread_id (rows db)) @
                    [email_timestamp (snd op)])"
      using snoc.prems True by (simp add: appended_to_snoc strict_sorted_last_n_snoc)
    moreover have "uid_fits (snd op)"
      using snoc.prems True by (simp add: appended_to_snoc)
    ultimately have "thread_rows thread_id
                       (rows (snd (sqlite_add_email_to_thread H True thread_id (snd op) db)))
            = last_n H (thread_rows thread_id (rows db) @ [row_of (next_id db) thread_id (snd op)])"
      using assms(1) by (intro sqlite_add_step [OF assms(2) _ d b]) simp_all
    from this
    have "thread_rows thread_id (rows (snd (sqlite_add_email_to_thread H True thread_id (snd op) db)))
            = last_n H (thread_rows thread_id (rows db) @ [row_of (next_id db) thread_id (snd op)])"
      by simp
    then have "map email_of_row (thread_rows thread_id
                 (rows (snd (sqlite_add_email_to_thread H True thread_id (snd op) db))))
            = last_n H (map sql_form (last_n H (appended_to thread_id ops) @ [snd op]))"
      by (simp add: last_n_map [symmetric] h)
    also have "\<dots> = map sql_form (last_n H (appended_to thread_id ops @ [snd op]))"
      by (simp only: last_n_map last_n_last_n_snoc [OF assms(1)])
    finally show ?thesis
      using fr True unfolding f by (simp add: appended_to_snoc)
  qed
qed

lemma sqlite_append_all_history:
  assumes "1 \<le> H" and "thread_id \<noteq> []"
    and "sorted_wrt (<) (map email_timestamp (appended_to thread_id ops))"
    and "list_all uid_fits (appended_to thread_id ops)"
  shows "sqlite_get_thread_history H True thread_id (sqlite_append_all H ops empty_db)
           = map sql_form (last_n H (appended_to thread_id ops))"
proof -
  define T where "T = thread_rows thread_id (rows (sqlite_append_all H ops empty_db))"
  from sqlite_append_all_inv [OF assms]
  have h: "map email_of_row T = map sql_form (last_n H (appended_to thread_id ops))"
    by (simp add: T_def)
  have "map row_timestamp T = map email_timestamp (map email_of_row T)"
    by simp
  also have "\<dots> = map email_timestamp (last_n H (appended_to thread_id ops))"
    unfolding h by simp
  finally have "sorted (map row_timestamp T)"
    using assms(3) by (simp add: last_n_def drop_map [symmetric] strict_sorted_imp_sorted)
  then have o: "order_by_timestamp T = T"
    by (simp add: order_by_timestamp_def sort_key_id_if_sorted)
  have "length T = length (last_n H (appended_to thread_id ops))"
    using h by (metis length_map)
  then have "int (length T) \<le> H"
    using assms(1) by (simp add: length_last_n)
  then have "sql_limit H T = T"
    by (simp add: sql_limit_def)
  with o h show ?thesis
    using assms(2) by (simp add: sqlite_get_thread_history_def T_def [symmetric])
qed


text \<open>The number of rows of a thread after an insert, whatever the timestamps.\<close>

lemma length_filter_not_taken:
  assumes "distinct (map f xs)" and "set ys = set xs" and "distinct (map f ys)"
  shows "length (filter (\<lambda>x. f x \<notin> f ` set (take n ys)) xs) = length xs - min n (length xs)"
proof -
  define A where "A = set (map f (take n ys))"
  have l: "length ys = length xs"
    using assms by (metis distinct_card length_map set_map)
  have "distinct (map f (take n ys))"
    using assms(3) by (simp add: take_map [symmetric])
  then have "card A = length (map f (take n ys))"
    unfolding A_def by (rule distinct_card)
  then have cA: "card A = min n (length xs)"
    by (simp add: l min.commute)
  have sub: "A \<subseteq> set (map f xs)"
    using assms(2) by (auto simp: A_def dest: in_set_takeD)
  have "length (filter (\<lambda>x. f x \<notin> A) xs) = length (filter (\<lambda>i. i \<notin> A) (map f xs))"
    by (simp add: filter_map comp_def)
  also have "\<dots> = card ({i. i \<notin> A} \<inter> set (map f xs))"
    using assms(1) by (rule distinct_length_filter)
  also have "{i. i \<notin> A} \<inter> set (map f xs) = set (map f xs) - A"
    by auto
  also have "card \<dots> = card (set (map f xs)) - card A"
    using sub by (intro card_Diff_subset) (auto intro: finite_subset)
  also have "\<dots> = length xs - min n (length xs)"
    using distinct_card [OF assms(1)] by (simp only: cA length_map)
  finally show ?thesis by (simp add: A_def)
qed

lemma sqlite_add_length:
  assumes "thread_id \<noteq> []" and "0 \<le> H"
    and "distinct (map row_id (rows db))" and "\<forall>r\<in>set (rows db). row_id r < next_id db"
    and "int (length (thread_rows thread_id (rows db))) \<le> H"
  shows "int (length (thread_rows thread_id
                 (rows (snd (sqlite_add_email_to_thread H ok thread_id e db))))) \<le> H"
proof (cases "ok \<and> uid_fits e")
  case False
  then show ?thesis
    using assms(5) by (auto simp: sqlite_add_email_to_thread_def)
next
  case ok: True
  define new where "new = row_of (next_id db) thread_id e"
  define T where "T = thread_rows thread_id (rows db) @ [new]"
  have r1: "rows (sql_insert thread_id e db) = rows db @ [new]"
    by (simp add: sql_insert_def new_def)
  have t1: "thread_rows thread_id (rows db @ [new]) = T"
    by (simp add: T_def thread_rows_def new_def)
  have dT: "distinct (map row_id T)"
    unfolding t1 [symmetric] thread_rows_def
    using assms(3,4) by (intro distinct_map_filter) (auto simp: new_def)
  have dS: "distinct (map row_id (order_by_timestamp T))"
    using dT by (simp add: order_by_timestamp_def distinct_map)
  have sS: "set (order_by_timestamp T) = set T"
    by (simp add: order_by_timestamp_def)
  show ?thesis
  proof (cases "H < int (length T)")
    case False
    then show ?thesis
      using assms(1) ok
      by (simp add: sqlite_add_email_to_thread_def Let_def r1 t1)
  next
    case True
    define n where "n = nat (int (length T) - H)"
    have n: "n = length T - nat H" using assms(2) by (simp add: n_def nat_diff_distrib')
    have "rows (snd (sqlite_add_email_to_thread H ok thread_id e db))
            = filter (\<lambda>r. \<not> (row_thread_id r = thread_id \<and>
                                row_id r \<in> row_id ` set (take n (order_by_timestamp T))))
                (rows db @ [new])"
      using assms(1) True ok
      by (simp add: sqlite_add_email_to_thread_def Let_def r1 t1 sql_limit_def n_def)
    then have "thread_rows thread_id (rows (snd (sqlite_add_email_to_thread H ok thread_id e db)))
            = filter (\<lambda>r. row_id r \<notin> row_id ` set (take n (order_by_timestamp T))) T"
      unfolding t1 [symmetric] thread_rows_def by (auto intro: filter_cong)
    then have "length (thread_rows thread_id
                 (rows (snd (sqlite_add_email_to_thread H ok thread_id e db))))
            = length T - min n (length T)"
      using length_filter_not_taken [OF dT sS dS, of n] by simp
    then show ?thesis
      using True assms(2) by (simp add: n)
  qed
qed

lemma sqlite_append_all_cap:
  assumes "0 \<le> H"
  shows "distinct (map row_id (rows (sqlite_append_all H ops empty_db))) \<and>
         (\<forall>r\<in>set (rows (sqlite_append_all H ops empty_db)).
            row_id r < next_id (sqlite_append_all H ops empty_db)) \<and>
         (\<forall>k. int (length (thread_rows k (rows (sqlite_append_all H ops empty_db)))) \<le> H)"
proof (induction ops rule: rev_induct)
  case Nil
  then show ?case
    using assms by (simp add: sqlite_append_all_def empty_db_def thread_rows_def)
next
  case (snoc op ops)
  define db where "db = sqlite_append_all H ops empty_db"
  have f: "sqlite_append_all H (ops @ [op]) empty_db =
             snd (sqlite_add_email_to_thread H True (fst op) (snd op) db)"
    by (simp add: sqlite_append_all_def db_def)
  from snoc.IH have d: "distinct (map row_id (rows db))"
    and b: "\<forall>r\<in>set (rows db). row_id r < next_id db"
    and l: "\<And>k. int (length (thread_rows k (rows db))) \<le> H"
    by (simp_all add: db_def)
  note fr = sqlite_add_frame [where H = H and ok = True and thread_id = "fst op"
      and e = "snd op", OF d b]
  have "int (length (thread_rows k (rows (snd (sqlite_add_email_to_thread H True (fst op)
               (snd op) db))))) \<le> H" for k
  proof (cases "k = fst op")
    case False
    with fr(3) [of k] l [of k] show ?thesis by simp
  next
    case True
    show ?thesis
    proof (cases "fst op = []")
      case e: True
      then show ?thesis using l [of k] by (simp add: sqlite_add_email_to_thread_def)
    next
      case False
      from sqlite_add_length [OF False assms d b l [of "fst op"]] True show ?thesis by simp
    qed
  qed
  with fr(1,2) show ?case unfolding f by simp
qed

lemma sqlite_history_length:
  "0 \<le> H \<Longrightarrow> int (length (sqlite_get_thread_history H ok thread_id db)) \<le> H"
  by (auto simp: sqlite_get_thread_history_def sql_limit_def)

text \<open>
  Claim C1, as amended. Let \<open>H \<ge> 1\<close> and let a sequence of
  \<^verbatim>\<open>add_email_to_thread\<close> calls run on an empty store, nothing failing. For every
  non-empty thread id, the history the JSON provider and the mock provider then hold is
  the last \<open>H\<close> of the records appended to the thread, in append order, and has at most
  \<open>H\<close> records. The SQLite provider holds at most \<open>H\<close> rows for the thread and returns
  at most \<open>H\<close> records, whatever was appended; it holds the last \<open>H\<close> of the records
  appended to the thread, in append order (each with all six keys), provided the
  timestamps of the records appended to the thread are strictly increasing and each
  \<^verbatim>\<open>uid\<close> fits in 64 signed bits.
\<close>

theorem history_cap_invariant:
  assumes "1 \<le> H" and "thread_id \<noteq> []" and "fs p = None"
  shows "fst (json_get_thread_history io_ok now p thread_id (json_append_all H now' p ops fs))
           = last_n H (appended_to thread_id ops) \<and>
         int (length (fst (json_get_thread_history io_ok now p thread_id
                             (json_append_all H now' p ops fs)))) \<le> H \<and>
         fst (mock_get_thread_history thread_id (mock_append_all H ops empty_mock))
           = last_n H (appended_to thread_id ops) \<and>
         int (length (fst (mock_get_thread_history thread_id
                             (mock_append_all H ops empty_mock)))) \<le> H \<and>
         int (length (thread_rows thread_id (rows (sqlite_append_all H ops empty_db)))) \<le> H \<and>
         int (length (sqlite_get_thread_history H True thread_id
                        (sqlite_append_all H ops empty_db))) \<le> H \<and>
         (sorted_wrt (<) (map email_timestamp (appended_to thread_id ops)) \<and>
          list_all uid_fits (appended_to thread_id ops) \<longrightarrow>
            sqlite_get_thread_history H True thread_id (sqlite_append_all H ops empty_db)
              = map sql_form (last_n H (appended_to thread_id ops)))"
proof -
  have H0: "0 \<le> H" using assms(1) by simp
  have j: "fst (json_get_thread_history io_ok now p thread_id (json_append_all H now' p ops fs))
           = last_n H (appended_to thread_id ops)"
    by (rule json_append_all_history [where fs = fs and p = p, OF assms(1) assms(3) assms(2)])
  have m: "fst (mock_get_thread_history thread_id (mock_append_all H ops empty_mock))
           = last_n H (appended_to thread_id ops)"
    using assms(1) by (simp add: mock_get_thread_history_def mock_append_all_inv)
  have c: "int (length (thread_rows thread_id (rows (sqlite_append_all H ops empty_db)))) \<le> H"
    using sqlite_append_all_cap [OF H0, of ops] by simp
  show ?thesis
    using assms(1,2)
    by (simp add: j m c length_last_n [OF H0] sqlite_history_length [OF H0]
        sqlite_append_all_history)
qed

lemma sql_form_mk_email [simp]: "sql_form (mk_email s su b ts r) = mk_email s su b ts r"
  by (simp add: sql_form_def mk_email_def dict_get_def)

theorem history_cap_invariant_witness:
  "(1::int) \<le> 2 \<and> ''t1'' \<noteq> [] \<and> (Map.empty :: files) ''email_threads.json'' = None \<and>
   sorted_wrt (<) (map email_timestamp [rec_A, rec_B, rec_C, rec_D]) \<and>
   list_all uid_fits [rec_A, rec_B, rec_C, rec_D] \<and>
   fst (json_get_thread_history io_ok 1709284800 ''email_threads.json'' ''t1''
          (json_append_all 2 1709284800 ''email_threads.json''
             [(''t1'', rec_A), (''t1'', rec_B), (''t1'', rec_C)] Map.empty)) = [rec_B, rec_C] \<and>
   fst (mock_get_thread_history ''t1''
          (mock_append_all 2 [(''t1'', rec_A), (''t1'', rec_B), (''t1'', rec_C)] empty_mock))
     = [rec_B, rec_C] \<and>
   sqlite_get_thread_history 2 True ''t1''
     (sqlite_append_all 2 [(''t1'', rec_A), (''t1'', rec_B), (''t1'', rec_C)] empty_db)
     = [rec_B, rec_C] \<and>
   fst (json_get_thread_history io_ok 1709284800 ''email_threads.json'' ''t1''
          (json_append_all 2 1709284800 ''email_threads.json''
             [(''t1'', rec_A), (''t1'', rec_B), (''t1'', rec_C), (''t1'', rec_D)] Map.empty))
     = [rec_C, rec_D] \<and>
   fst (mock_get_thread_history ''t1''
          (mock_append_all 2 [(''t1'', rec_A), (''t1'', rec_B), (''t1'', rec_C), (''t1'', rec_D)]
             empty_mock))
     = [rec_C, rec_D] \<and>
   sqlite_get_thread_history 2 True ''t1''
     (sqlite_append_all 2 [(''t1'', rec_A), (''t1'', rec_B), (''t1'', rec_C), (''t1'', rec_D)]
        empty_db)
     = [rec_C, rec_D] \<and>
   int (length (thread_rows ''t1''
     (rows (sqlite_append_all 2 [(''t1'', rec_A), (''t1'', rec_B), (''t1'', rec_C), (''t1'', rec_D)]
        empty_db)))) \<le> 2"
proof -
  have s: "sorted_wrt (<) (map email_timestamp [rec_A, rec_B, rec_C, rec_D])"
    by (simp add: email_timestamp_def rec_A_def rec_B_def rec_C_def rec_D_def mk_email_def
        dict_get_def less_char_def)
  have u: "list_all uid_fits [rec_A, rec_B, rec_C, rec_D]"
    by (simp add: uid_fits_def rec_A_def rec_B_def rec_C_def rec_D_def mk_email_def)
  have f: "sql_form rec_A = rec_A" "sql_form rec_B = rec_B" "sql_form rec_C = rec_C"
    "sql_form rec_D = rec_D"
    by (simp_all add: rec_A_def rec_B_def rec_C_def rec_D_def)
  have e: "(Map.empty :: files) ''email_threads.json'' = None"
    by simp
  from s u
    history_cap_invariant [where H = 2 and thread_id = "''t1''" and fs = Map.empty
      and p = "''email_threads.json''" and now = 1709284800 and now' = 1709284800
      and ops = "[(''t1'', rec_A), (''t1'', rec_B), (''t1'', rec_C)]", OF _ _ e]
    history_cap_invariant [where H = 2 and thread_id = "''t1''" and fs = Map.empty
      and p = "''email_threads.json''" and now = 1709284800 and now' = 1709284800
      and ops = "[(''t1'', rec_A), (''t1'', rec_B), (''t1'', rec_C), (''t1'', rec_D)]", OF _ _ e]
  show ?thesis
    by (simp add: appended_to_def last_n_def f)
qed

text \<open>
  The claim as stated fails for the SQLite provider, which evicts and orders by
  timestamp, not by position: with \<open>H = 2\<close>, appending \<open>C\<close>, \<open>A\<close>, \<open>B\<close> in that
  order, where the timestamps order them \<open>A\<close>, \<open>B\<close>, \<open>C\<close>, leaves the history
  \<open>[B, C]\<close>; the two most recently appended records in append order are \<open>[A, B]\<close>.
  It also refuses a record whose \<^verbatim>\<open>uid\<close> is \<open>2\<^sup>6\<^sup>3\<close>, which the JSON provider keeps.
  And with the cap configured as \<open>0\<close> the JSON provider and the mock provider keep the
  appended record, the slice \<^verbatim>\<open>[-0:]\<close> being the whole list.
\<close>

theorem sqlite_cap_by_timestamp_counterexample:
  "sqlite_get_thread_history 2 True ''t1''
     (sqlite_append_all 2 [(''t1'', rec_C), (''t1'', rec_A), (''t1'', rec_B)] empty_db)
     = [rec_B, rec_C] \<and>
   last_n 2 (appended_to ''t1'' [(''t1'', rec_C), (''t1'', rec_A), (''t1'', rec_B)])
     = [rec_A, rec_B] \<and>
   [rec_B, rec_C] \<noteq> [rec_A, rec_B] \<and>
   sqlite_get_thread_history 2 True ''t1'' (sqlite_append_all 2 [(''t1'', rec_big)] empty_db)
     = [] \<and>
   fst (json_get_thread_history io_ok 1709284800 ''email_threads.json'' ''t1''
          (json_append_all 2 1709284800 ''email_threads.json'' [(''t1'', rec_big)] Map.empty))
     = [rec_big] \<and>
   fst (json_get_thread_history io_ok 1709284800 ''email_threads.json'' ''t1''
          (json_append_all 0 1709284800 ''email_threads.json'' [(''t1'', rec_A)] Map.empty))
     = [rec_A] \<and>
   fst (mock_get_thread_history ''t1'' (mock_append_all 0 [(''t1'', rec_A)] empty_mock))
     = [rec_A] \<and>
   \<not> int (length [rec_A]) \<le> 0"
  by (simp add: sqlite_get_thread_history_def sqlite_append_all_def
      sqlite_add_email_to_thread_def empty_db_def sql_insert_def row_of_def email_of_row_def
      thread_rows_def order_by_timestamp_def sql_limit_def last_n_def appended_to_def
      rec_A_def rec_B_def rec_C_def rec_big_def mk_email_def dict_get_def Let_def uid_fits_def
      json_get_thread_history_def json_append_all_def json_add_email_to_thread_def
      json_load_threads_def json_save_threads_def io_ok_def temp_file_def threads_get_def
      py_last_slice_def mock_get_thread_history_def mock_append_all_def
      mock_add_email_to_thread_def empty_mock_def
      less_char_def less_eq_char_def)

subsection \<open>Removing stale threads\<close>













lemma cutoff_0301_30: "cutoff_iso_of clock_0301 30 = Some ''2024-01-31T09:20:00''"
  by (simp add: cutoff_iso_of_def minus_days_def clock_0301_def ymd2ord_def days_before_year_def
      days_before_month_def DAYS_BEFORE_MONTH_def DAYS_IN_MONTH_def is_leap_def ord2ymd_def Let_def
      isoformat_def zero_padded_def str_nat.simps)




subsection \<open>Copies handed out by the mock provider\<close>

text \<open>
  Claim C9 fails for the mock provider. After one record is added to a thread, a read of
  the thread gives a list holding that record; when the caller assigns to the body of the
  record in the list it was given, the next read of the thread gives the record with the
  assigned body: the copy made by \<^verbatim>\<open>list.copy()\<close> shares the record dicts with the
  store. Without the assignment both reads give the record as it was added.
\<close>

theorem mock_read_shares_records:
  "read_twice False = Some ([rec_A], [rec_A]) \<and>
   read_twice True = Some ([rec_A], [rec_A\<lparr>body := Some ''tampered''\<rparr>]) \<and>
   [rec_A\<lparr>body := Some ''tampered''\<rparr>] \<noteq> [rec_A]"
  by (simp add: read_twice_def fresh_mock_def heap_add_email_to_thread_def
      heap_get_thread_history_def caller_set_body_def list_value_def alloc_def Let_def
      rec_A_def mk_email_def)


end
